theory Spec2Isabelle
  imports Complex_Main
begin

section \<open>Comparing PyStruct and SVM-Struct: the adapter and the sweep harness\<close>

text \<open>
  A model of \<^verbatim>\<open>examples/multiclass_comparision_svm_struct.py\<close>: the class
  \<^verbatim>\<open>MultiSVM\<close>, which runs the SVM-multiclass binaries on exchange files, the
  function \<^verbatim>\<open>eval_on_data\<close>, which sweeps a model over a list of values of C, and
  \<^verbatim>\<open>plot_curves\<close>.

  Finite Python floats are modelled as \<open>real\<close>, strings as \<open>string\<close>; the floats the
  program parses or collects are of type \<open>pyfloat\<close>, which has the values that are no
  numbers, and the label vector is a numpy array of integers of a fixed width, whose
  arithmetic wraps. An exception is a value \<open>Inl e\<close>; a function that mutates its object or
  the outside world returns the object and the world next to its result, also when it
  raises, since the assignments made before the exception stay made.
\<close>

subsection \<open>Python values\<close>

datatype py_error = IndexError | ValueError | AttributeError | IOError

type_synonym path = string

text \<open>
  A Python float as \<^verbatim>\<open>float\<close> returns it from a string, or as a metric computes it: a
  number, or nan, inf or -inf, which \<^verbatim>\<open>float\<close> accepts without raising.
\<close>

datatype pyfloat = Num real | NaN | PlusInf | MinusInf

text \<open>
  A numpy array of signed integers: its width in bits and its values. An addition wraps
  around at the width, silently.
\<close>

datatype int_array = Int_array (bits: nat) (items: "int list")

definition wrap :: "nat \<Rightarrow> int \<Rightarrow> int" where
  "wrap n v = (v + 2 ^ (n - 1)) mod 2 ^ n - 2 ^ (n - 1)"

definition add_scalar :: "int_array \<Rightarrow> int \<Rightarrow> int_array" where
  "add_scalar y k = Int_array (bits y) (map (\<lambda>v. wrap (bits y) (v + k)) (items y))"

text \<open>
  \<^verbatim>\<open>s.split(sep)\<close> with an explicit one-character separator: the pieces between the
  separators, empty pieces kept, so that the empty string gives one empty piece.
\<close>

fun py_split :: "char \<Rightarrow> string \<Rightarrow> string list" where
  "py_split sep [] = [[]]"
| "py_split sep (c # cs) =
     (if c = sep then [] # py_split sep cs
      else (case py_split sep cs of
              [] \<Rightarrow> [[c]]
            | piece # pieces \<Rightarrow> (c # piece) # pieces))"

text \<open>
  \<^verbatim>\<open>xs[i]\<close> on a Python list: an index below zero counts from the end, and an index
  outside the list raises IndexError.
\<close>

definition py_index :: "'a list \<Rightarrow> int \<Rightarrow> py_error + 'a" where
  "py_index xs i =
     (if 0 \<le> i \<and> i < int (length xs) then Inr (xs ! nat i)
      else if i < 0 \<and> - i \<le> int (length xs) then Inr (xs ! nat (int (length xs) + i))
      else Inl IndexError)"

text \<open>
  A numpy array of floats, as \<^verbatim>\<open>np.loadtxt\<close> returns it: one-dimensional when the file
  has a single row or a single column, two-dimensional (a list of rows of one length)
  otherwise.
\<close>

datatype ndarray = Arr1 "real list" | Arr2 "real list list"

text \<open>
  \<^verbatim>\<open>a[:, 0]\<close>: the first column. Indexing a one-dimensional array with two indices
  raises IndexError, and so does column 0 of an array whose rows are empty.
\<close>

fun first_entries :: "real list list \<Rightarrow> py_error + real list" where
  "first_entries [] = Inr []"
| "first_entries ([] # rows) = Inl IndexError"
| "first_entries ((v # vs) # rows) =
     (case first_entries rows of Inl e \<Rightarrow> Inl e | Inr col \<Rightarrow> Inr (v # col))"

fun column0 :: "ndarray \<Rightarrow> py_error + real list" where
  "column0 (Arr1 vs) = Inl IndexError"
| "column0 (Arr2 rows) = first_entries rows"

text \<open>\<^verbatim>\<open>a[:, 1:]\<close>: every column but the first; a slice never raises on a short row.\<close>

fun columns_from1 :: "ndarray \<Rightarrow> py_error + real list list" where
  "columns_from1 (Arr1 vs) = Inl IndexError"
| "columns_from1 (Arr2 rows) = Inr (map tl rows)"

subsection \<open>The world outside the program\<close>

text \<open>What pyplot is asked to do, in order.\<close>

datatype plt_call =
    Figure real real
  | Plot "pyfloat list" string string string nat
  | Xlabel string
  | Xticks "nat list" "real list"
  | Legend string
  | Title string
  | Savefig path

text \<open>
  A file holds a data set in the sparse exchange format (rows of features and one label
  per row), a numeric table, a chart or bytes the program never looks into.
\<close>

datatype content =
    SvmLight "real list list" "real list"
  | Table ndarray
  | Chart
  | Blob string

type_synonym filesystem = "(path \<times> content) list"

definition existing :: "filesystem \<Rightarrow> path set" where
  "existing fs = fst ` set fs"

definition write_file :: "path \<Rightarrow> content \<Rightarrow> filesystem \<Rightarrow> filesystem" where
  "write_file p c fs = (p, c) # fs"

text \<open>
  The world: the files, the command lines handed to the shell so far, the pyplot calls so
  far, and a counter of the calls made to the operating system, which lets the clock and
  the generator of temporary names answer differently at different moments.
\<close>

record world =
  files :: filesystem
  spawned :: "string list"
  plt_calls :: "plt_call list"
  tick :: nat

text \<open>
  The collaborators the program does not define, as parameters: the name
  \<^verbatim>\<open>tempfile.mktemp\<close> generates, what running a command line prints and does to the
  files (the two SVM-multiclass binaries), the reading of \<^verbatim>\<open>time.clock\<close>, Python's
  \<^verbatim>\<open>float\<close> on a string (\<open>None\<close> for ValueError), the formatting \<^verbatim>\<open>"%f" % x\<close>,
  \<^verbatim>\<open>sklearn.metrics.accuracy_score\<close>, the rounding of a real number to the nearest
  float64, which numpy applies to the result of an operation on floats, and whether a
  file can be created at a path.
\<close>

record env =
  temp_name :: "string \<Rightarrow> world \<Rightarrow> path"
  shell :: "string \<Rightarrow> world \<Rightarrow> string \<times> filesystem"
  clock_val :: "world \<Rightarrow> real"
  py_float :: "string \<Rightarrow> pyfloat option"
  format_f :: "real \<Rightarrow> string"
  accuracy_score :: "int_array \<Rightarrow> real list \<Rightarrow> py_error + pyfloat"
  f64 :: "real \<Rightarrow> real"
  can_write :: "path \<Rightarrow> world \<Rightarrow> bool"

definition mktemp :: "env \<Rightarrow> string \<Rightarrow> world \<Rightarrow> path \<times> world" where
  "mktemp e suffix w = (temp_name e suffix w, w\<lparr>tick := Suc (tick w)\<rparr>)"

definition clock :: "env \<Rightarrow> world \<Rightarrow> real \<times> world" where
  "clock e w = (clock_val e w, w\<lparr>tick := Suc (tick w)\<rparr>)"

text \<open>
  \<^verbatim>\<open>os.popen(cmd).read()\<close>: the shell runs the command line once; its output is
  returned. A binary that is missing shows in the output, not as an exception.
\<close>

definition os_popen_read :: "env \<Rightarrow> string \<Rightarrow> world \<Rightarrow> string \<times> world" where
  "os_popen_read e cmd w =
     (case shell e cmd w of
        (out, fs) \<Rightarrow>
          (out, w\<lparr>files := fs, spawned := spawned w @ [cmd], tick := Suc (tick w)\<rparr>))"

text \<open>\<^verbatim>\<open>os.system(cmd)\<close>: the same, the output going to the terminal.\<close>

definition os_system :: "env \<Rightarrow> string \<Rightarrow> world \<Rightarrow> world" where
  "os_system e cmd w = snd (os_popen_read e cmd w)"

text \<open>
  \<^verbatim>\<open>dump_svmlight_file(X, y, f, zero_based=False)\<close> of scikit-learn: it raises
  ValueError when X and y differ in their number of rows, and writes the data set to
  \<open>f\<close> otherwise. Labels are not inspected. The releases of scikit-learn of the time of
  this program write a data set without rows as an empty file, as here; later releases
  reject it with ValueError.
\<close>

definition dump_svmlight_file ::
  "real list list \<Rightarrow> real list \<Rightarrow> path \<Rightarrow> world \<Rightarrow> (py_error + unit) \<times> world" where
  "dump_svmlight_file X y f w =
     (if length X \<noteq> length y then (Inl ValueError, w)
      else (Inr (), w\<lparr>files := write_file f (SvmLight X y) (files w)\<rparr>))"

text \<open>
  \<^verbatim>\<open>np.loadtxt(f)\<close>: the table stored in the file; IOError when there is no such file
  and ValueError when the file is no numeric table.
\<close>

definition loadtxt :: "path \<Rightarrow> world \<Rightarrow> py_error + ndarray" where
  "loadtxt f w =
     (case map_of (files w) f of
        None \<Rightarrow> Inl IOError
      | Some (Table a) \<Rightarrow> Inr a
      | Some other \<Rightarrow> Inl ValueError)"

subsection \<open>MultiSVM\<close>

definition svmstruct_path :: string where
  "svmstruct_path = ''/home/user/amueller/tools/svm_multiclass/''"

text \<open>
  An object of class \<^verbatim>\<open>MultiSVM\<close>. The attributes \<^verbatim>\<open>model_file\<close>, \<^verbatim>\<open>output_\<close> and
  \<^verbatim>\<open>runtime_\<close> do not exist until \<^verbatim>\<open>fit\<close> assigns them: \<open>None\<close> is the missing
  attribute.
\<close>

record multisvm =
  C :: real
  model_file :: "path option"
  output_attr :: "string list option"
  runtime_attr :: "pyfloat option"

definition init_MultiSVM :: "real \<Rightarrow> multisvm" where
  "init_MultiSVM c = \<lparr>C = c, model_file = None, output_attr = None, runtime_attr = None\<rparr>"

text \<open>\<^verbatim>\<open>float(output[-4].split(":")[1])\<close>, the expression of line 60.\<close>

definition parse_runtime :: "env \<Rightarrow> string list \<Rightarrow> py_error + pyfloat" where
  "parse_runtime e output =
     (case py_index output (- 4) of
        Inl err \<Rightarrow> Inl err
      | Inr line \<Rightarrow>
          (case py_index (py_split CHR '':'' line) 1 of
             Inl err \<Rightarrow> Inl err
           | Inr field \<Rightarrow>
               (case py_float e field of
                  None \<Rightarrow> Inl ValueError
                | Some r \<Rightarrow> Inr r)))"

text \<open>The command line of \<^verbatim>\<open>fit\<close>, lines 56 to 58.\<close>

definition learn_command :: "env \<Rightarrow> real \<Rightarrow> path \<Rightarrow> path \<Rightarrow> string" where
  "learn_command e c train_data_file mf =
     svmstruct_path @ ''svm_multiclass_learn -w 3 -c '' @ format_f e c
       @ '' '' @ train_data_file @ '' '' @ mf"

definition fit ::
  "env \<Rightarrow> real list list \<Rightarrow> int_array \<Rightarrow> multisvm \<Rightarrow> world
     \<Rightarrow> (py_error + unit) \<times> multisvm \<times> world" where
  "fit e X y self w0 =
     (case mktemp e ''.svm'' w0 of
        (mf, w1) \<Rightarrow>
     (case mktemp e ''.svm_dat'' w1 of
        (train_data_file, w2) \<Rightarrow>
     (case dump_svmlight_file X (map real_of_int (items (add_scalar y 1)))
             train_data_file w2 of
        (Inl err, w3) \<Rightarrow> (Inl err, self\<lparr>model_file := Some mf\<rparr>, w3)
      | (Inr u, w3) \<Rightarrow>
     (case os_popen_read e
             (learn_command e (C self * 100 * real (length X)) train_data_file mf) w3 of
        (out, w4) \<Rightarrow>
     (case parse_runtime e (py_split (CHR 0x0A) out) of
        Inl err \<Rightarrow>
          (Inl err,
           self\<lparr>model_file := Some mf, output_attr := Some (py_split (CHR 0x0A) out)\<rparr>,
           w4)
      | Inr r \<Rightarrow>
          (Inr (),
           self\<lparr>model_file := Some mf, output_attr := Some (py_split (CHR 0x0A) out),
                runtime_attr := Some r\<rparr>,
           w4))))))"

text \<open>The command line of \<^verbatim>\<open>_predict\<close>, lines 70 and 71.\<close>

definition classify_command :: "path \<Rightarrow> path \<Rightarrow> path \<Rightarrow> string" where
  "classify_command train_data_file mf prediction_file =
     svmstruct_path @ ''svm_multiclass_classify '' @ train_data_file
       @ '' '' @ mf @ '' '' @ prediction_file"

text \<open>
  \<^verbatim>\<open>_predict\<close> does not assign to its object. Reading \<^verbatim>\<open>self.model_file\<close> while the
  arguments of \<^verbatim>\<open>os.system\<close> are built raises AttributeError when the attribute is
  missing; both temporary names have been generated and the data file written by then.
\<close>

definition predict_raw ::
  "env \<Rightarrow> real list list \<Rightarrow> real list option \<Rightarrow> multisvm \<Rightarrow> world
     \<Rightarrow> (py_error + ndarray) \<times> world" where
  "predict_raw e X yopt self w0 =
     (case mktemp e ''.svm_dat'' w0 of
        (train_data_file, w1) \<Rightarrow>
     (case dump_svmlight_file X
             (case yopt of None \<Rightarrow> replicate (length X) 1 | Some y \<Rightarrow> y)
             train_data_file w1 of
        (Inl err, w2) \<Rightarrow> (Inl err, w2)
      | (Inr u, w2) \<Rightarrow>
     (case mktemp e ''.out'' w2 of
        (prediction_file, w3) \<Rightarrow>
     (case model_file self of
        None \<Rightarrow> (Inl AttributeError, w3)
      | Some mf \<Rightarrow>
          (case os_system e (classify_command train_data_file mf prediction_file) w3 of
             w4 \<Rightarrow> (loadtxt prediction_file w4, w4))))))"

definition predict ::
  "env \<Rightarrow> real list list \<Rightarrow> multisvm \<Rightarrow> world \<Rightarrow> (py_error + real list) \<times> world" where
  "predict e X self w =
     (case predict_raw e X None self w of
        (Inl err, w') \<Rightarrow> (Inl err, w')
      | (Inr a, w') \<Rightarrow>
          (case column0 a of
             Inl err \<Rightarrow> (Inl err, w')
           | Inr col \<Rightarrow> (Inr (map (\<lambda>v. f64 e (v - 1)) col), w')))"

definition score ::
  "env \<Rightarrow> real list list \<Rightarrow> int_array \<Rightarrow> multisvm \<Rightarrow> world
     \<Rightarrow> (py_error + pyfloat) \<times> world" where
  "score e X y self w =
     (case predict e X self w of
        (Inl err, w') \<Rightarrow> (Inl err, w')
      | (Inr y_pred, w') \<Rightarrow> (accuracy_score e y y_pred, w'))"

definition decision_function ::
  "env \<Rightarrow> real list list \<Rightarrow> multisvm \<Rightarrow> world
     \<Rightarrow> (py_error + real list list) \<times> world" where
  "decision_function e X self w =
     (case predict_raw e X None self w of
        (Inl err, w') \<Rightarrow> (Inl err, w')
      | (Inr a, w') \<Rightarrow> (columns_from1 a, w'))"

subsection \<open>The sweep harness\<close>

text \<open>
  \<^verbatim>\<open>eval_on_data\<close> takes any object with an attribute \<^verbatim>\<open>C\<close> and methods
  \<^verbatim>\<open>fit\<close> and \<^verbatim>\<open>predict\<close>. Such an object is a state of type \<open>'s\<close> with its
  operations: the assignment to \<^verbatim>\<open>C\<close>, the reading of \<^verbatim>\<open>C\<close>, the two methods, and
  the attribute \<^verbatim>\<open>runtime_\<close>, \<open>None\<close> when \<^verbatim>\<open>hasattr\<close> is false.
\<close>

record 's adapter =
  set_C :: "real \<Rightarrow> 's \<Rightarrow> 's"
  get_C :: "'s \<Rightarrow> real"
  fit_m :: "real list list \<Rightarrow> int_array \<Rightarrow> 's \<Rightarrow> world \<Rightarrow> (py_error + unit) \<times> 's \<times> world"
  predict_m :: "real list list \<Rightarrow> 's \<Rightarrow> world \<Rightarrow> (py_error + real list) \<times> 's \<times> world"
  runtime_of :: "'s \<Rightarrow> pyfloat option"

definition multisvm_adapter :: "env \<Rightarrow> multisvm adapter" where
  "multisvm_adapter e =
     \<lparr>set_C = (\<lambda>c self. self\<lparr>C := c\<rparr>),
      get_C = C,
      fit_m = fit e,
      predict_m = (\<lambda>X self w. case predict e X self w of (r, w') \<Rightarrow> (r, self, w')),
      runtime_of = runtime_attr\<rparr>"

text \<open>
  The time appended at one sweep point, lines 91 to 94: the attribute when the object
  has it, and otherwise a second reading of the clock minus \<open>start\<close>.
\<close>

definition time_of_point ::
  "env \<Rightarrow> 's adapter \<Rightarrow> real \<Rightarrow> 's \<Rightarrow> world \<Rightarrow> pyfloat \<times> world" where
  "time_of_point e svm start s w =
     (case runtime_of svm s of
        Some rt \<Rightarrow> (rt, w)
      | None \<Rightarrow> (case clock e w of (now, w') \<Rightarrow> (Num (now - start), w')))"

text \<open>The body of the loop, lines 88 to 95, for one value \<open>c\<close> of the sweep.\<close>

definition eval_point ::
  "env \<Rightarrow> real list list \<Rightarrow> int_array \<Rightarrow> 's adapter \<Rightarrow> real \<Rightarrow> 's \<Rightarrow> world
     \<Rightarrow> (py_error + pyfloat \<times> pyfloat) \<times> 's \<times> world" where
  "eval_point e X y svm c s w0 =
     (case clock e w0 of
        (start, w1) \<Rightarrow>
     (case fit_m svm X y (set_C svm c s) w1 of
        (Inl err, s2, w2) \<Rightarrow> (Inl err, s2, w2)
      | (Inr u, s2, w2) \<Rightarrow>
     (case time_of_point e svm start s2 w2 of
        (t, w3) \<Rightarrow>
     (case predict_m svm X s2 w3 of
        (Inl err, s3, w4) \<Rightarrow> (Inl err, s3, w4)
      | (Inr y_pred, s3, w4) \<Rightarrow>
          (case accuracy_score e y y_pred of
             Inl err \<Rightarrow> (Inl err, s3, w4)
           | Inr a \<Rightarrow> (Inr (a, t), s3, w4))))))"

text \<open>
  The loop over \<open>Cs\<close>, with the two lists it appends to (\<open>timings\<close> is the list
  \<^verbatim>\<open>times\<close>). An exception leaves the loop and the function: the lists built so far
  are lost.
\<close>

fun eval_loop ::
  "env \<Rightarrow> real list list \<Rightarrow> int_array \<Rightarrow> 's adapter \<Rightarrow> real list
     \<Rightarrow> pyfloat list \<Rightarrow> pyfloat list \<Rightarrow> 's \<Rightarrow> world
     \<Rightarrow> (py_error + pyfloat list \<times> pyfloat list) \<times> 's \<times> world" where
  "eval_loop e X y svm [] accuracies timings s w = (Inr (accuracies, timings), s, w)"
| "eval_loop e X y svm (c # cs) accuracies timings s w =
     (case eval_point e X y svm c s w of
        (Inl err, s', w') \<Rightarrow> (Inl err, s', w')
      | (Inr (a, t), s', w') \<Rightarrow>
          eval_loop e X y svm cs (accuracies @ [a]) (timings @ [t]) s' w')"

definition eval_on_data ::
  "env \<Rightarrow> real list list \<Rightarrow> int_array \<Rightarrow> 's adapter \<Rightarrow> real list \<Rightarrow> 's \<Rightarrow> world
     \<Rightarrow> (py_error + pyfloat list \<times> pyfloat list) \<times> 's \<times> world" where
  "eval_on_data e X y svm Cs s w = eval_loop e X y svm Cs [] [] s w"

subsection \<open>The reporter\<close>




subsection \<open>A sample environment\<close>

text \<open>
  One concrete choice of the collaborators, on which the theorems below are instantiated.
  A temporary name has more letters x than every path in use, hence is new. The learn
  tool stores the training set as its model, at its last argument, and prints a banner;
  the classify tool reads the data file and the model named by its first two arguments
  and writes one row per sample to its last argument: the label the model holds for
  that sample (1 when it holds none) and two scores. A file with a single row is loaded
  as a one-dimensional array. The parser of floats, the formatter and the rounding know
  the fields, the costs and the numbers that occur in the sample runs; a file can be
  created under \<^verbatim>\<open>/tmp\<close> and in the working directory.
\<close>

definition x_count :: "path \<Rightarrow> nat" where
  "x_count p = length (filter (\<lambda>c. c = CHR ''x'') p)"

definition most_x :: "filesystem \<Rightarrow> nat" where
  "most_x fs = fold (\<lambda>(p, c) n. max (x_count p) n) fs 0"

definition sample_temp_name :: "string \<Rightarrow> world \<Rightarrow> path" where
  "sample_temp_name suffix w =
     ''/tmp/tmp'' @ replicate (Suc (most_x (files w))) (CHR ''x'') @ suffix"

definition sample_banner :: string where
  "sample_banner =
     ''Number of SV: 3'' @ [CHR 0x0A]
     @ ''Runtime in cpu-seconds: 0.05'' @ [CHR 0x0A]
     @ ''Compacting linear model...done'' @ [CHR 0x0A]
     @ ''Writing learned model...done'' @ [CHR 0x0A]"

text \<open>A banner without the line that reports the runtime.\<close>

definition truncated_banner :: string where
  "truncated_banner =
     ''Upper bound on duality gap: 0.0'' @ [CHR 0x0A]
     @ ''Compacting linear model...done'' @ [CHR 0x0A]
     @ ''Writing learned model...done'' @ [CHR 0x0A]"

definition sample_row :: "(real list \<times> real) list \<Rightarrow> real list \<Rightarrow> real list" where
  "sample_row model x =
     (case map_of model x of
        None \<Rightarrow> [1, 1, 0]
      | Some l \<Rightarrow> [l, 1, 0])"

definition sample_table :: "(real list \<times> real) list \<Rightarrow> real list list \<Rightarrow> ndarray" where
  "sample_table model X =
     (case X of
        [x] \<Rightarrow> Arr1 (sample_row model x)
      | rows \<Rightarrow> Arr2 (map (sample_row model) rows))"

definition tool_shell :: "string \<Rightarrow> string \<Rightarrow> world \<Rightarrow> string \<times> filesystem" where
  "tool_shell banner cmd w =
     (let args = py_split (CHR '' '') cmd in
      if hd args = svmstruct_path @ ''svm_multiclass_learn''
      then (case map_of (files w) (args ! 5) of
              Some data \<Rightarrow> (banner, write_file (last args) data (files w))
            | None \<Rightarrow> ([], files w))
      else if hd args = svmstruct_path @ ''svm_multiclass_classify''
      then (case (map_of (files w) (args ! 1), map_of (files w) (args ! 2)) of
              (Some (SvmLight X y), Some (SvmLight Xt yt)) \<Rightarrow>
                ([], write_file (last args) (Table (sample_table (zip Xt yt) X)) (files w))
            | other \<Rightarrow> ([], files w))
      else ([], files w))"

definition sample_float :: "string \<Rightarrow> pyfloat option" where
  "sample_float field =
     map_of [('' 0.05'', Num (5 / 100)), ('' 3'', Num 3), ('' 0.0'', Num 0), ('' nan'', NaN)]
       field"

definition sample_format :: "real \<Rightarrow> string" where
  "sample_format r =
     (if r = 300 then ''300.000000'' else if r = 30 then ''30.000000'' else ''?'')"

definition sample_accuracy :: "int_array \<Rightarrow> real list \<Rightarrow> py_error + pyfloat" where
  "sample_accuracy y y_pred =
     (if length (items y) \<noteq> length y_pred then Inl ValueError
      else Inr (Num (real (length (filter (\<lambda>(a, b). real_of_int a = b) (zip (items y) y_pred)))
                     / real (length (items y)))))"

text \<open>
  Every integer up to \<open>2 ^ 53\<close> in magnitude is a float64; \<open>2 ^ 53 + 1\<close> is not, and
  rounds to \<open>2 ^ 53\<close>, the neighbour with the even mantissa.
\<close>

definition sample_f64 :: "real \<Rightarrow> real" where
  "sample_f64 r = (if r = 2 ^ 53 + 1 then 2 ^ 53 else r)"

definition sample_can_write :: "path \<Rightarrow> world \<Rightarrow> bool" where
  "sample_can_write p w \<longleftrightarrow> CHR ''/'' \<notin> set p \<or> take 5 p = ''/tmp/''"

definition sample_env :: env where
  "sample_env =
     \<lparr>temp_name = sample_temp_name,
      shell = tool_shell sample_banner,
      clock_val = (\<lambda>w. real (tick w)),
      py_float = sample_float,
      format_f = sample_format,
      accuracy_score = sample_accuracy,
      f64 = sample_f64,
      can_write = sample_can_write\<rparr>"

text \<open>
  The same tools run quietly, printing nothing, and the same tools in a version whose
  banner has no runtime line.
\<close>

definition quiet_env :: env where
  "quiet_env = sample_env\<lparr>shell := tool_shell []\<rparr>"

definition truncated_env :: env where
  "truncated_env = sample_env\<lparr>shell := tool_shell truncated_banner\<rparr>"

text \<open>Tools that print their banner and write no file.\<close>

definition idle_env :: env where
  "idle_env = sample_env\<lparr>shell := (\<lambda>cmd w. (sample_banner, files w))\<rparr>"

definition empty_world :: world where
  "empty_world = \<lparr>files = [], spawned = [], plt_calls = [], tick = 0\<rparr>"

definition sample_X :: "real list list" where
  "sample_X = [[0], [2], [1 / 2]]"

definition sample_y :: int_array where
  "sample_y = Int_array 64 [0, 1, 0]"

text \<open>
  The same labels with class 127 in an array of 8-bit integers, and with a label beyond
  \<open>2 ^ 53\<close> in an array of 64-bit integers.
\<close>

definition narrow_y :: int_array where
  "narrow_y = Int_array 8 [0, 127, 0]"

definition large_y :: int_array where
  "large_y = Int_array 64 [0, 2 ^ 53 + 1, 0]"

text \<open>
  The object and the world after \<^verbatim>\<open>MultiSVM(C=1.).fit(X, y)\<close> on the sample data in
  the empty world, the object when the tools run quietly and when the banner has no
  runtime line, and the world when the labels are \<open>narrow_y\<close> and \<open>large_y\<close>.
\<close>

definition fitted_svm :: multisvm where
  "fitted_svm =
     \<lparr>C = 1, model_file = Some ''/tmp/tmpx.svm'',
      output_attr = Some [''Number of SV: 3'', ''Runtime in cpu-seconds: 0.05'',
                          ''Compacting linear model...done'',
                          ''Writing learned model...done'', []],
      runtime_attr = Some (Num (1 / 20))\<rparr>"

definition quiet_svm :: multisvm where
  "quiet_svm =
     \<lparr>C = 1, model_file = Some ''/tmp/tmpx.svm'', output_attr = Some [[]],
      runtime_attr = None\<rparr>"

definition truncated_svm :: multisvm where
  "truncated_svm =
     \<lparr>C = 1, model_file = Some ''/tmp/tmpx.svm'',
      output_attr = Some [''Upper bound on duality gap: 0.0'',
                          ''Compacting linear model...done'',
                          ''Writing learned model...done'', []],
      runtime_attr = Some (Num 0)\<rparr>"

definition world_after_fit :: "real list \<Rightarrow> world" where
  "world_after_fit labels =
     \<lparr>files = [(''/tmp/tmpx.svm'', SvmLight [[0], [2], [1 / 2]] labels),
               (''/tmp/tmpx.svm_dat'', SvmLight [[0], [2], [1 / 2]] labels)],
      spawned = [svmstruct_path
                 @ ''svm_multiclass_learn -w 3 -c 300.000000 /tmp/tmpx.svm_dat /tmp/tmpx.svm''],
      plt_calls = [], tick = 3\<rparr>"

definition fitted_world :: world where
  "fitted_world = world_after_fit [1, 2, 1]"

definition narrow_world :: world where
  "narrow_world = world_after_fit [1, - 128, 1]"

definition large_world :: world where
  "large_world = world_after_fit [1, 2 ^ 53 + 2, 1]"

text \<open>
  An in-process model, standing for the models of pystruct, whose code is not in this
  file: \<^verbatim>\<open>fit\<close> rejects a C that is not positive; otherwise it remembers the training
  set, or only its first sample when C is below 1, and takes one tick of the clock for
  each sample it remembers. \<^verbatim>\<open>predict\<close> looks each row up, label 0 for a row it does
  not remember. It has no attribute \<^verbatim>\<open>runtime_\<close>, so the harness times it with the
  clock.
\<close>

record table_model =
  tm_C :: real
  tm_rows :: "(real list \<times> int) list"

definition table_fit ::
  "real list list \<Rightarrow> int_array \<Rightarrow> table_model \<Rightarrow> world
     \<Rightarrow> (py_error + unit) \<times> table_model \<times> world" where
  "table_fit X y s w =
     (if tm_C s \<le> 0 then (Inl ValueError, s, w)
      else (Inr (),
            s\<lparr>tm_rows := take (if tm_C s < 1 then 1 else length X) (zip X (items y))\<rparr>,
            w\<lparr>tick := tick w + length (take (if tm_C s < 1 then 1 else length X)
                                          (zip X (items y)))\<rparr>))"

definition table_adapter :: "table_model adapter" where
  "table_adapter =
     \<lparr>set_C = (\<lambda>c s. s\<lparr>tm_C := c\<rparr>),
      get_C = tm_C,
      fit_m = table_fit,
      predict_m = (\<lambda>X s w.
         (Inr (map (\<lambda>x. case map_of (tm_rows s) x of
                             None \<Rightarrow> 0
                           | Some l \<Rightarrow> real_of_int l) X), s, w)),
      runtime_of = (\<lambda>s. None)\<rparr>"

definition fresh_table :: table_model where
  "fresh_table = \<lparr>tm_C = 1, tm_rows = []\<rparr>"

text \<open>Two labels for the three samples.\<close>

definition short_y :: int_array where
  "short_y = Int_array 64 [0, 1]"

subsection \<open>Conditions on the collaborators\<close>

text \<open>
  An object whose methods leave the attribute \<^verbatim>\<open>C\<close> as the caller set it.
\<close>

definition keeps_C :: "'s adapter \<Rightarrow> bool" where
  "keeps_C svm \<longleftrightarrow>
     (\<forall>c s. get_C svm (set_C svm c s) = c)
   \<and> (\<forall>X y s w. get_C svm (fst (snd (fit_m svm X y s w))) = get_C svm s)
   \<and> (\<forall>X s w. get_C svm (fst (snd (predict_m svm X s w))) = get_C svm s)"

text \<open>
  The contract of \<^verbatim>\<open>tempfile.mktemp\<close>: the path it returns did not exist at the time
  of the call.
\<close>

definition mktemp_ok :: "env \<Rightarrow> bool" where
  "mktemp_ok e \<longleftrightarrow> (\<forall>suffix w. temp_name e suffix w \<notin> existing (files w))"

text \<open>
  The names one call of \<^verbatim>\<open>fit\<close> generates when it starts in the world \<open>w\<close>, model
  file first, and the names one call of \<^verbatim>\<open>_predict\<close> on \<open>X\<close> generates, data file
  first; the name of the prediction file is generated once the data file is written.
\<close>

definition fit_names :: "env \<Rightarrow> world \<Rightarrow> path \<times> path" where
  "fit_names e w =
     (case mktemp e ''.svm'' w of
        (mf, w1) \<Rightarrow> (mf, fst (mktemp e ''.svm_dat'' w1)))"

definition predict_names :: "env \<Rightarrow> real list list \<Rightarrow> world \<Rightarrow> path \<times> path" where
  "predict_names e X w =
     (case mktemp e ''.svm_dat'' w of
        (train_data_file, w1) \<Rightarrow>
          (train_data_file,
           fst (mktemp e ''.out''
                  (snd (dump_svmlight_file X (replicate (length X) 1) train_data_file w1)))))"

text \<open>
  What IEEE 754 gives for float64: every integer of magnitude up to \<open>2 ^ 53\<close> is a
  float64, so rounding leaves it as it is.
\<close>

definition f64_exact :: "env \<Rightarrow> bool" where
  "f64_exact e \<longleftrightarrow> (\<forall>n :: int. \<bar>n\<bar> \<le> 2 ^ 53 \<longrightarrow> f64 e (real_of_int n) = real_of_int n)"

text \<open>
  The captured output of the learn tool, split into lines, lacks the runtime where
  \<^verbatim>\<open>fit\<close> looks for it: there is no fourth line from the end, or that line has no
  second field between colons, or that field is not a number.
\<close>

definition no_runtime_field :: "env \<Rightarrow> string list \<Rightarrow> bool" where
  "no_runtime_field e output \<longleftrightarrow>
     length output < 4
   \<or> length (py_split CHR '':'' (output ! (length output - 4))) < 2
   \<or> py_float e (py_split CHR '':'' (output ! (length output - 4)) ! 1) = None"

section \<open>Properties\<close>

subsection \<open>The loop of the harness\<close>

lemma eval_loop_acc:
  "eval_loop e X y svm cs accs tms s w =
     (case eval_loop e X y svm cs [] [] s w of
        (Inl err, s', w') \<Rightarrow> (Inl err, s', w')
      | (Inr (a, t), s', w') \<Rightarrow> (Inr (accs @ a, tms @ t), s', w'))"
proof (induction cs arbitrary: accs tms s w)
  case Nil
  show ?case by simp
next
  case (Cons c cs)
  show ?case
  proof (cases "eval_point e X y svm c s w")
    case (fields r s1 w1)
    show ?thesis
    proof (cases r)
      case (Inl err)
      with fields show ?thesis by simp
    next
      case (Inr res)
      obtain a t where res: "res = (a, t)" by (cases res)
      have step: "\<And>A T. eval_loop e X y svm (c # cs) A T s w
                   = eval_loop e X y svm cs (A @ [a]) (T @ [t]) s1 w1"
        using fields Inr res by simp
      have e1: "eval_loop e X y svm cs (accs @ [a]) (tms @ [t]) s1 w1 =
                  (case eval_loop e X y svm cs [] [] s1 w1 of
                     (Inl err, s', w') \<Rightarrow> (Inl err, s', w')
                   | (Inr (a', t'), s', w') \<Rightarrow> (Inr ((accs @ [a]) @ a', (tms @ [t]) @ t'), s', w'))"
        by (rule Cons.IH)
      have e2: "eval_loop e X y svm cs [a] [t] s1 w1 =
                  (case eval_loop e X y svm cs [] [] s1 w1 of
                     (Inl err, s', w') \<Rightarrow> (Inl err, s', w')
                   | (Inr (a', t'), s', w') \<Rightarrow> (Inr ([a] @ a', [t] @ t'), s', w'))"
        by (rule Cons.IH)
      have l: "eval_loop e X y svm (c # cs) accs tms s w
                 = eval_loop e X y svm cs (accs @ [a]) (tms @ [t]) s1 w1"
        by (rule step)
      have r: "eval_loop e X y svm (c # cs) [] [] s w = eval_loop e X y svm cs [a] [t] s1 w1"
        using step [of "[]" "[]"] by simp
      show ?thesis
        unfolding l r e1 e2 by (simp split: prod.splits sum.splits)
    qed
  qed
qed

lemma eval_loop_append:
  "eval_loop e X y svm (pre @ post) accs tms s w =
     (case eval_loop e X y svm pre accs tms s w of
        (Inl err, s', w') \<Rightarrow> (Inl err, s', w')
      | (Inr (a, t), s', w') \<Rightarrow> eval_loop e X y svm post a t s' w')"
  by (induction pre arbitrary: accs tms s w) (simp_all split: prod.splits sum.splits)

lemma eval_loop_length:
  "eval_loop e X y svm cs accs tms s w = (Inr (a, t), s', w') \<Longrightarrow>
     length a = length accs + length cs \<and> length t = length tms + length cs"
  by (induction cs arbitrary: accs tms s w) (auto split: prod.splits sum.splits)


lemma eval_loop_prefix:
  assumes "eval_loop e X y svm cs accs tms s w = (Inr (a, t), s', w')"
  shows "\<exists>a' t'. a = accs @ a' \<and> t = tms @ t' \<and> length a' = length cs \<and> length t' = length cs"
proof -
  from assms obtain a' t' where
    base: "eval_loop e X y svm cs [] [] s w = (Inr (a', t'), s', w')"
    and eq: "a = accs @ a'" "t = tms @ t'"
    by (subst (asm) eval_loop_acc) (auto split: prod.splits sum.splits)
  from eval_loop_length [OF base] have "length a' = length cs" "length t' = length cs"
    by simp_all
  with eq show ?thesis by blast
qed

lemma eval_on_data_abort_prefix:
  "eval_on_data e X y svm pre s w = (Inl err, s1, w1) \<Longrightarrow>
     eval_on_data e X y svm (pre @ post) s w = (Inl err, s1, w1)"
  by (simp add: eval_on_data_def eval_loop_append)

lemma eval_on_data_abort_point:
  "eval_on_data e X y svm pre s w = (Inr r, s1, w1) \<Longrightarrow>
   eval_point e X y svm c s1 w1 = (Inl err, s2, w2) \<Longrightarrow>
     eval_on_data e X y svm (pre @ c # post) s w = (Inl err, s2, w2)"
  by (cases r) (simp add: eval_on_data_def eval_loop_append)

lemma eval_on_data_split:
  assumes "eval_on_data e X y svm (pre @ c # post) s w = (Inr (accs, tms), s', w')"
  shows "\<exists>s1 w1 s2 w2.
           eval_on_data e X y svm pre s w
             = (Inr (take (length pre) accs, take (length pre) tms), s1, w1)
         \<and> eval_point e X y svm c s1 w1 = (Inr (accs ! length pre, tms ! length pre), s2, w2)"
proof -
  from assms obtain a t s1 w1 where
    pre: "eval_loop e X y svm pre [] [] s w = (Inr (a, t), s1, w1)"
    and rest: "eval_loop e X y svm (c # post) a t s1 w1 = (Inr (accs, tms), s', w')"
    by (auto simp: eval_on_data_def eval_loop_append split: prod.splits sum.splits)
  from rest obtain a' t' s2 w2 where
    point: "eval_point e X y svm c s1 w1 = (Inr (a', t'), s2, w2)"
    and post: "eval_loop e X y svm post (a @ [a']) (t @ [t']) s2 w2 = (Inr (accs, tms), s', w')"
    by (auto split: prod.splits sum.splits)
  from eval_loop_length [OF pre] have len: "length a = length pre" "length t = length pre"
    by simp_all
  from eval_loop_prefix [OF post] obtain a'' t'' where
    "accs = (a @ [a']) @ a''" "tms = (t @ [t']) @ t''"
    by blast
  with len have "take (length pre) accs = a" "take (length pre) tms = t"
    "accs ! length pre = a'" "tms ! length pre = t'"
    by (simp_all add: nth_append)
  with pre point show ?thesis
    by (simp add: eval_on_data_def)
qed

lemma eval_on_data_point:
  assumes "eval_on_data e X y svm Cs s w = (Inr (accs, tms), s', w')" and "i < length Cs"
  shows "\<exists>s1 w1 s2 w2.
           eval_on_data e X y svm (take i Cs) s w = (Inr (take i accs, take i tms), s1, w1)
         \<and> eval_point e X y svm (Cs ! i) s1 w1 = (Inr (accs ! i, tms ! i), s2, w2)"
proof -
  from \<open>i < length Cs\<close> have Cs: "Cs = take i Cs @ Cs ! i # drop (Suc i) Cs"
    by (simp add: id_take_nth_drop)
  have "length (take i Cs) = i" using \<open>i < length Cs\<close> by simp
  with eval_on_data_split [of e X y svm "take i Cs" "Cs ! i" "drop (Suc i) Cs" s w accs tms s' w']
    assms(1) Cs
  show ?thesis by simp
qed

lemma eval_on_data_lengths:
  "eval_on_data e X y svm Cs s w = (Inr (accs, tms), s', w') \<Longrightarrow>
     length accs = length Cs \<and> length tms = length Cs"
  using eval_loop_length [of e X y svm Cs "[]" "[]" s w accs tms s' w']
  by (simp add: eval_on_data_def)

lemma eval_point_returns:
  "eval_point e X y svm c s w = (Inr (a, t), s', w') \<longleftrightarrow>
     (\<exists>s2 w2 w3 y_pred.
         fit_m svm X y (set_C svm c s) (snd (clock e w)) = (Inr (), s2, w2)
       \<and> time_of_point e svm (clock_val e w) s2 w2 = (t, w3)
       \<and> predict_m svm X s2 w3 = (Inr y_pred, s', w')
       \<and> accuracy_score e y y_pred = Inr a)"
  by (auto simp: eval_point_def clock_def split: prod.splits sum.splits)

lemma eval_point_raises:
  "fit_m svm X y (set_C svm c s) (snd (clock e w)) = (Inl err, s2, w2) \<Longrightarrow>
     eval_point e X y svm c s w = (Inl err, s2, w2)"
  "fit_m svm X y (set_C svm c s) (snd (clock e w)) = (Inr (), s2, w2) \<Longrightarrow>
   predict_m svm X s2 (snd (time_of_point e svm (clock_val e w) s2 w2)) = (Inl err, s3, w4) \<Longrightarrow>
     eval_point e X y svm c s w = (Inl err, s3, w4)"
  "fit_m svm X y (set_C svm c s) (snd (clock e w)) = (Inr (), s2, w2) \<Longrightarrow>
   predict_m svm X s2 (snd (time_of_point e svm (clock_val e w) s2 w2)) = (Inr y_pred, s3, w4) \<Longrightarrow>
   accuracy_score e y y_pred = Inl err \<Longrightarrow>
     eval_point e X y svm c s w = (Inl err, s3, w4)"
  by (auto simp: eval_point_def clock_def split: prod.splits sum.splits)

lemma eval_on_data_snoc:
  "eval_on_data e X y svm (pre @ [c]) s w =
     (case eval_on_data e X y svm pre s w of
        (Inl err, s1, w1) \<Rightarrow> (Inl err, s1, w1)
      | (Inr (a, t), s1, w1) \<Rightarrow>
          (case eval_point e X y svm c s1 w1 of
             (Inl err, s2, w2) \<Rightarrow> (Inl err, s2, w2)
           | (Inr (a', t'), s2, w2) \<Rightarrow> (Inr (a @ [a'], t @ [t']), s2, w2)))"
  by (simp add: eval_on_data_def eval_loop_append split: prod.splits sum.splits)

text \<open>
  Claim C3. When \<^verbatim>\<open>eval_on_data\<close> returns, both lists have the length of \<open>Cs\<close>, and
  their entries at position \<open>i\<close> come from one cycle run with the value \<open>Cs ! i\<close> in the
  state the sweep of the first \<open>i\<close> values leaves: \<^verbatim>\<open>fit\<close> is called with \<^verbatim>\<open>C\<close> set to
  \<open>Cs ! i\<close> and returns, the time at \<open>i\<close> is the time taken for that call, \<^verbatim>\<open>predict\<close>
  is called on the fitted object, and the accuracy at \<open>i\<close> is \<^verbatim>\<open>accuracy_score\<close> of
  \<open>y\<close> and that prediction; the sweep of the first \<open>i + 1\<close> values ends there, with the
  first \<open>i + 1\<close> entries. Nothing is reordered or skipped. When, after the sweep of the
  first \<open>i\<close> values went through, \<^verbatim>\<open>fit\<close>, \<^verbatim>\<open>predict\<close> or \<^verbatim>\<open>accuracy_score\<close> raises at
  position \<open>i\<close>, the whole call raises that error and returns no list.
\<close>

theorem eval_on_data_aligned:
  "(eval_on_data e X y svm Cs s w = (Inr (accs, tms), s', w') \<longrightarrow>
      length accs = length Cs \<and> length tms = length Cs
    \<and> (\<forall>i<length Cs. \<exists>s1 w1 s2 w2 w3 y_pred s3 w4.
          eval_on_data e X y svm (take i Cs) s w = (Inr (take i accs, take i tms), s1, w1)
        \<and> fit_m svm X y (set_C svm (Cs ! i) s1) (snd (clock e w1)) = (Inr (), s2, w2)
        \<and> time_of_point e svm (clock_val e w1) s2 w2 = (tms ! i, w3)
        \<and> predict_m svm X s2 w3 = (Inr y_pred, s3, w4)
        \<and> accuracy_score e y y_pred = Inr (accs ! i)
        \<and> eval_on_data e X y svm (take (Suc i) Cs) s w
            = (Inr (take (Suc i) accs, take (Suc i) tms), s3, w4)))
 \<and> (i < length Cs \<longrightarrow>
    eval_on_data e X y svm (take i Cs) s w = (Inr r, s1, w1) \<longrightarrow>
      (fit_m svm X y (set_C svm (Cs ! i) s1) (snd (clock e w1)) = (Inl err, s2, w2) \<longrightarrow>
         eval_on_data e X y svm Cs s w = (Inl err, s2, w2))
    \<and> (fit_m svm X y (set_C svm (Cs ! i) s1) (snd (clock e w1)) = (Inr (), s2, w2) \<longrightarrow>
       predict_m svm X s2 (snd (time_of_point e svm (clock_val e w1) s2 w2))
         = (Inl err, s3, w4) \<longrightarrow>
         eval_on_data e X y svm Cs s w = (Inl err, s3, w4))
    \<and> (fit_m svm X y (set_C svm (Cs ! i) s1) (snd (clock e w1)) = (Inr (), s2, w2) \<longrightarrow>
       predict_m svm X s2 (snd (time_of_point e svm (clock_val e w1) s2 w2))
         = (Inr y_pred, s3, w4) \<longrightarrow>
       accuracy_score e y y_pred = Inl err \<longrightarrow>
         eval_on_data e X y svm Cs s w = (Inl err, s3, w4)))"
proof (intro conjI impI allI)
  assume ok: "eval_on_data e X y svm Cs s w = (Inr (accs, tms), s', w')"
  from eval_on_data_lengths [OF ok]
  show len: "length accs = length Cs" "length tms = length Cs" by simp_all
  fix k assume k: "k < length Cs"
  from eval_on_data_point [OF ok k] obtain s1 w1 s3 w4 where
    pre: "eval_on_data e X y svm (take k Cs) s w = (Inr (take k accs, take k tms), s1, w1)"
    and point: "eval_point e X y svm (Cs ! k) s1 w1 = (Inr (accs ! k, tms ! k), s3, w4)"
    by blast
  from point obtain s2 w2 w3 y_pred where
    cycle: "fit_m svm X y (set_C svm (Cs ! k) s1) (snd (clock e w1)) = (Inr (), s2, w2)"
      "time_of_point e svm (clock_val e w1) s2 w2 = (tms ! k, w3)"
      "predict_m svm X s2 w3 = (Inr y_pred, s3, w4)"
      "accuracy_score e y y_pred = Inr (accs ! k)"
    unfolding eval_point_returns by blast
  from k have "take (Suc k) Cs = take k Cs @ [Cs ! k]"
    by (simp add: take_Suc_conv_app_nth)
  moreover from k len have "take (Suc k) accs = take k accs @ [accs ! k]"
    "take (Suc k) tms = take k tms @ [tms ! k]"
    by (simp_all add: take_Suc_conv_app_nth)
  ultimately
  have "eval_on_data e X y svm (take (Suc k) Cs) s w
          = (Inr (take (Suc k) accs, take (Suc k) tms), s3, w4)"
    using pre point by (simp add: eval_on_data_snoc)
  with pre cycle
  show "\<exists>s1 w1 s2 w2 w3 y_pred s3 w4.
          eval_on_data e X y svm (take k Cs) s w = (Inr (take k accs, take k tms), s1, w1)
        \<and> fit_m svm X y (set_C svm (Cs ! k) s1) (snd (clock e w1)) = (Inr (), s2, w2)
        \<and> time_of_point e svm (clock_val e w1) s2 w2 = (tms ! k, w3)
        \<and> predict_m svm X s2 w3 = (Inr y_pred, s3, w4)
        \<and> accuracy_score e y y_pred = Inr (accs ! k)
        \<and> eval_on_data e X y svm (take (Suc k) Cs) s w
            = (Inr (take (Suc k) accs, take (Suc k) tms), s3, w4)"
    by blast
next
  assume i: "i < length Cs"
    and pre: "eval_on_data e X y svm (take i Cs) s w = (Inr r, s1, w1)"
  from i have Cs: "Cs = take i Cs @ Cs ! i # drop (Suc i) Cs"
    by (simp add: id_take_nth_drop)
  have abort: "eval_on_data e X y svm Cs s w = (Inl err, s9, w9)"
    if "eval_point e X y svm (Cs ! i) s1 w1 = (Inl err, s9, w9)" for s9 w9
    using eval_on_data_abort_point [OF pre that, of "drop (Suc i) Cs"] Cs by simp
  {
    assume "fit_m svm X y (set_C svm (Cs ! i) s1) (snd (clock e w1)) = (Inl err, s2, w2)"
    then show "eval_on_data e X y svm Cs s w = (Inl err, s2, w2)"
      by (intro abort eval_point_raises(1))
  }
  {
    assume "fit_m svm X y (set_C svm (Cs ! i) s1) (snd (clock e w1)) = (Inr (), s2, w2)"
      and "predict_m svm X s2 (snd (time_of_point e svm (clock_val e w1) s2 w2))
             = (Inl err, s3, w4)"
    then show "eval_on_data e X y svm Cs s w = (Inl err, s3, w4)"
      by (intro abort eval_point_raises(2))
  }
  {
    assume "fit_m svm X y (set_C svm (Cs ! i) s1) (snd (clock e w1)) = (Inr (), s2, w2)"
      and "predict_m svm X s2 (snd (time_of_point e svm (clock_val e w1) s2 w2))
             = (Inr y_pred, s3, w4)"
      and "accuracy_score e y y_pred = Inl err"
    then show "eval_on_data e X y svm Cs s w = (Inl err, s3, w4)"
      by (intro abort eval_point_raises(3))
  }
qed

lemma eval_point_fit:
  assumes "eval_point e X y svm c s w = (Inr (a, t), s', w')"
  shows "\<exists>s2 w2. fit_m svm X y (set_C svm c s) (snd (clock e w)) = (Inr (), s2, w2)
           \<and> t = (case runtime_of svm s2 of
                     Some rt \<Rightarrow> rt
                   | None \<Rightarrow> Num (clock_val e w2 - clock_val e w))"
  using assms
  by (auto simp: eval_point_def time_of_point_def clock_def
           split: prod.splits sum.splits option.splits)

text \<open>
  Claim C4. At every position \<open>i\<close> of a sweep that returns, \<^verbatim>\<open>fit\<close> was called with
  \<^verbatim>\<open>C\<close> set to \<open>Cs ! i\<close>, right after the clock was read, and returned; the time at
  position \<open>i\<close> is the attribute \<^verbatim>\<open>runtime_\<close> of the object \<^verbatim>\<open>fit\<close> left when there
  is one, and otherwise the clock read after \<^verbatim>\<open>fit\<close> minus the clock read before it.
\<close>

theorem eval_on_data_time_source:
  assumes "eval_on_data e X y svm Cs s w = (Inr (accs, tms), s', w')" and "i < length Cs"
  shows "\<exists>s1 w1 s2 w2.
           snd (eval_on_data e X y svm (take i Cs) s w) = (s1, w1)
         \<and> fit_m svm X y (set_C svm (Cs ! i) s1) (snd (clock e w1)) = (Inr (), s2, w2)
         \<and> tms ! i = (case runtime_of svm s2 of
                        Some rt \<Rightarrow> rt
                      | None \<Rightarrow> Num (clock_val e w2 - clock_val e w1))"
proof -
  from eval_on_data_point [OF assms] obtain s1 w1 s2 w2 where
    pre: "eval_on_data e X y svm (take i Cs) s w = (Inr (take i accs, take i tms), s1, w1)"
    and point: "eval_point e X y svm (Cs ! i) s1 w1 = (Inr (accs ! i, tms ! i), s2, w2)"
    by blast
  from eval_point_fit [OF point] pre show ?thesis by auto
qed

lemma eval_point_C:
  assumes "keeps_C svm"
  shows "get_C svm (fst (snd (eval_point e X y svm c s w))) = c"
proof -
  from assms have set: "\<And>c s. get_C svm (set_C svm c s) = c"
    and fit: "\<And>X y s w r s' w'. fit_m svm X y s w = (r, s', w') \<Longrightarrow> get_C svm s' = get_C svm s"
    and pred: "\<And>X s w r s' w'. predict_m svm X s w = (r, s', w') \<Longrightarrow> get_C svm s' = get_C svm s"
    unfolding keeps_C_def by (metis fst_conv snd_conv)+
  show ?thesis
    by (auto simp: eval_point_def set split: prod.splits sum.splits dest!: fit pred)
qed

lemma eval_on_data_last_C:
  assumes "keeps_C svm" and "Cs \<noteq> []"
    and "eval_on_data e X y svm Cs s w = (Inr r, s', w')"
  shows "get_C svm s' = last Cs"
proof -
  from \<open>Cs \<noteq> []\<close> have Cs: "Cs = butlast Cs @ [last Cs]" by simp
  from assms(3) have "eval_on_data e X y svm (butlast Cs @ [last Cs]) s w = (Inr r, s', w')"
    using Cs by simp
  then obtain s1 w1 a t where "eval_point e X y svm (last Cs) s1 w1 = (Inr (a, t), s', w')"
    by (auto simp: eval_on_data_snoc split: prod.splits sum.splits)
  with eval_point_C [OF assms(1), of e X y "last Cs" s1 w1] show ?thesis by simp
qed

lemma eval_on_data_prefix_ok:
  assumes "eval_on_data e X y svm Cs s w = (Inr r, s', w')"
  shows "\<exists>r1 s1 w1. eval_on_data e X y svm (take k Cs) s w = (Inr r1, s1, w1)"
proof -
  have "eval_on_data e X y svm (take k Cs @ drop k Cs) s w = (Inr r, s', w')"
    using assms by simp
  then show ?thesis
    unfolding eval_on_data_def eval_loop_append
    by (auto split: prod.splits sum.splits)
qed

text \<open>
  Claim C10. For an object whose methods leave \<^verbatim>\<open>C\<close> alone, a sweep over a non-empty
  \<open>Cs\<close> that returns leaves \<^verbatim>\<open>C\<close> at the last value of \<open>Cs\<close>, whatever it was
  before; after the first \<open>i + 1\<close> values it is \<open>Cs ! i\<close>.
\<close>

theorem eval_on_data_sets_C:
  assumes "keeps_C svm" and "Cs \<noteq> []"
    and "eval_on_data e X y svm Cs s w = (Inr r, s', w')"
  shows "get_C svm s' = last Cs
       \<and> (\<forall>i<length Cs.
            get_C svm (fst (snd (eval_on_data e X y svm (take (Suc i) Cs) s w))) = Cs ! i)"
proof (intro conjI allI impI)
  from assms show "get_C svm s' = last Cs" by (rule eval_on_data_last_C)
next
  fix i assume i: "i < length Cs"
  from eval_on_data_prefix_ok [OF assms(3), of "Suc i"] obtain r1 s1 w1 where
    pre: "eval_on_data e X y svm (take (Suc i) Cs) s w = (Inr r1, s1, w1)" by blast
  from i have ne: "take (Suc i) Cs \<noteq> []" by auto
  from i have "last (take (Suc i) Cs) = Cs ! i"
    by (simp add: take_Suc_conv_app_nth)
  with eval_on_data_last_C [OF assms(1) ne pre] pre
  show "get_C svm (fst (snd (eval_on_data e X y svm (take (Suc i) Cs) s w))) = Cs ! i"
    by simp
qed

lemma multisvm_keeps_C: "keeps_C (multisvm_adapter e)"
  unfolding keeps_C_def multisvm_adapter_def
  by (auto simp: fit_def mktemp_def dump_svmlight_file_def os_popen_read_def
           split: prod.splits sum.splits)



subsection \<open>What fit and predict do\<close>

lemma items_add_scalar [simp]:
  "items (add_scalar y k) = map (\<lambda>v. wrap (bits y) (v + k)) (items y)"
  by (simp add: add_scalar_def)

lemma fit_spawned:
  "spawned (snd (snd (fit e X y self w))) =
     (if length X = length (items y)
      then spawned w @ [learn_command e (C self * 100 * real (length X))
                          (temp_name e ''.svm_dat'' (w\<lparr>tick := Suc (tick w)\<rparr>))
                          (temp_name e ''.svm'' w)]
      else spawned w)"
  by (simp add: fit_def mktemp_def dump_svmlight_file_def os_popen_read_def
           split: prod.splits sum.splits)

lemma fit_model_file:
  "model_file (fst (snd (fit e X y self w))) = Some (temp_name e ''.svm'' w)"
  by (simp add: fit_def mktemp_def dump_svmlight_file_def os_popen_read_def
           split: prod.splits sum.splits)

lemma fit_mismatch:
  "length X \<noteq> length (items y) \<Longrightarrow>
     fit e X y self w
     = (Inl ValueError, self\<lparr>model_file := Some (temp_name e ''.svm'' w)\<rparr>,
        w\<lparr>tick := Suc (Suc (tick w))\<rparr>)"
  by (simp add: fit_def mktemp_def dump_svmlight_file_def)

text \<open>
  Claim C5. When X and y have the same number of rows, a call of \<^verbatim>\<open>fit\<close> hands exactly
  one command line to the shell: the learn tool with \<^verbatim>\<open>-w 3\<close>, with \<^verbatim>\<open>-c\<close> the
  formatted value of C * 100 * N, then the training-data name this call generated with
  suffix \<^verbatim>\<open>.svm_dat\<close>, then the model name this call generated with suffix \<^verbatim>\<open>.svm\<close>,
  which is also the new \<^verbatim>\<open>model_file\<close>. This holds whether or not the runtime is
  parsed afterwards.
\<close>

theorem fit_spawns_learn_once:
  assumes "length X = length (items y)"
  shows "spawned (snd (snd (fit e X y self w)))
         = spawned w
           @ [svmstruct_path @ ''svm_multiclass_learn -w 3 -c ''
              @ format_f e (C self * 100 * real (length X))
              @ '' '' @ temp_name e ''.svm_dat'' (w\<lparr>tick := Suc (tick w)\<rparr>)
              @ '' '' @ temp_name e ''.svm'' w]
       \<and> model_file (fst (snd (fit e X y self w))) = Some (temp_name e ''.svm'' w)"
  using assms by (simp add: fit_spawned fit_model_file learn_command_def)

text \<open>
  Claim C7, amended. When X and y differ in their number of rows, the serializer raises
  ValueError, \<^verbatim>\<open>fit\<close> raises it, and neither a process is started nor a file written.
\<close>

theorem fit_checks_rows_only:
  assumes "length X \<noteq> length (items y)"
  shows "fst (fit e X y self w) = Inl ValueError
       \<and> spawned (snd (snd (fit e X y self w))) = spawned w
       \<and> files (snd (snd (fit e X y self w))) = files w"
  using assms by (simp add: fit_mismatch)

lemma predict_raw_no_model:
  "model_file self = None \<Longrightarrow> fst (predict_raw e X yopt self w) =
     (if length X = length (case yopt of None \<Rightarrow> replicate (length X) 1 | Some y \<Rightarrow> y)
      then Inl AttributeError else Inl ValueError)"
  by (simp add: predict_raw_def mktemp_def dump_svmlight_file_def split: prod.splits)

text \<open>
  Claim C9, amended. On an object without the attribute \<^verbatim>\<open>model_file\<close>, as the
  constructor leaves it, \<^verbatim>\<open>predict\<close>, \<^verbatim>\<open>score\<close> and \<^verbatim>\<open>decision_function\<close> raise
  AttributeError. Every call of \<^verbatim>\<open>fit\<close> creates the attribute, also a call that raises.
\<close>

theorem predict_needs_model_file:
  "(model_file self = None \<longrightarrow>
      fst (predict e X self w) = Inl AttributeError
    \<and> fst (score e X y self w) = Inl AttributeError
    \<and> fst (decision_function e X self w) = Inl AttributeError)
 \<and> model_file (init_MultiSVM c) = None
 \<and> model_file (fst (snd (fit e X y self w))) \<noteq> None"
proof -
  have raw: "fst (predict_raw e X None self w) = Inl AttributeError" if "model_file self = None"
    using predict_raw_no_model [OF that, of e X None w] by simp
  have p: "fst (predict e X self w) = Inl AttributeError" if "model_file self = None"
    using raw [OF that] by (auto simp: predict_def split: prod.splits sum.splits)
  have s: "fst (score e X y self w) = Inl AttributeError" if "model_file self = None"
    using p [OF that] by (auto simp: score_def split: prod.splits sum.splits)
  have d: "fst (decision_function e X self w) = Inl AttributeError" if "model_file self = None"
    using raw [OF that] by (auto simp: decision_function_def split: prod.splits sum.splits)
  show ?thesis
    using p s d by (simp add: init_MultiSVM_def fit_model_file)
qed


lemma parse_runtime_malformed:
  assumes "no_runtime_field e out"
  shows "parse_runtime e out = Inl IndexError \<or> parse_runtime e out = Inl ValueError"
proof (cases "length out < 4")
  case True
  then show ?thesis by (simp add: parse_runtime_def py_index_def)
next
  case False
  have n: "nat (int (length out) - 4) = length out - 4" by arith
  show ?thesis
  proof (cases "length (py_split CHR '':'' (out ! (length out - 4))) < 2")
    case True
    with False show ?thesis by (simp add: parse_runtime_def py_index_def n)
  next
    case short: False
    with False assms
    have "py_float e (py_split CHR '':'' (out ! (length out - 4)) ! 1) = None"
      by (simp add: no_runtime_field_def)
    with short False show ?thesis by (simp add: parse_runtime_def py_index_def n)
  qed
qed

lemma parse_runtime_ok:
  "parse_runtime e out = Inr t \<Longrightarrow> \<not> no_runtime_field e out"
  using parse_runtime_malformed [of e out] by auto

lemma fit_outcome:
  assumes "length X = length (items y)" and "fit e X y self w = (r, self', w')"
  shows "\<exists>out. output_attr self' = Some out
           \<and> (case parse_runtime e out of
                 Inl err \<Rightarrow> r = Inl err \<and> runtime_attr self' = runtime_attr self
               | Inr t \<Rightarrow> r = Inr () \<and> runtime_attr self' = Some t)"
  using assms
  by (auto simp: fit_def mktemp_def dump_svmlight_file_def os_popen_read_def
           split: prod.splits sum.splits)

lemma fit_returns:
  assumes "fit e X y self w = (Inr (), self', w')"
  shows "\<exists>out t. output_attr self' = Some out \<and> parse_runtime e out = Inr t
           \<and> runtime_attr self' = Some t"
  using assms
  by (auto simp: fit_def mktemp_def dump_svmlight_file_def os_popen_read_def
           split: prod.splits sum.splits if_splits)

lemma multisvm_point:
  assumes "eval_point e X y (multisvm_adapter e) c s w = (Inr (a, t), s', w')"
  shows "\<exists>out. output_attr s' = Some out \<and> parse_runtime e out = Inr t"
proof -
  from assms obtain s2 w2 w3 where
    f: "fit e X y (s\<lparr>C := c\<rparr>) (snd (clock e w)) = (Inr (), s2, w2)"
    and tm: "time_of_point e (multisvm_adapter e) (fst (clock e w)) s2 w2 = (t, w3)"
    and s': "s' = s2"
    by (auto simp: eval_point_def multisvm_adapter_def split: prod.splits sum.splits)
  from fit_returns [OF f] obtain out t' where
    out: "output_attr s2 = Some out" "parse_runtime e out = Inr t'"
      "runtime_attr s2 = Some t'" by blast
  with tm have "t = t'" by (simp add: time_of_point_def multisvm_adapter_def)
  with out s' show ?thesis by simp
qed

text \<open>
  Claim C1, amended. When the learn tool has run and the fourth line from the end of its
  captured output is missing, has no second field between colons, or has one that
  \<^verbatim>\<open>float\<close> rejects, \<^verbatim>\<open>fit\<close> raises IndexError (no such line, no such field) or
  ValueError (field rejected) and leaves the attribute \<^verbatim>\<open>runtime_\<close> as it was: no
  value, zero or other, is recorded. Hence in every result that \<^verbatim>\<open>eval_on_data\<close>
  returns for a \<^verbatim>\<open>MultiSVM\<close>, the time at position \<open>i\<close> is what \<^verbatim>\<open>float\<close> returned
  for that field of the output captured at that point.
\<close>

theorem fit_malformed_output:
  "(length X = length (items y) \<longrightarrow> fit e X y self w = (r, self', w') \<longrightarrow>
    output_attr self' = Some out \<longrightarrow> no_runtime_field e out \<longrightarrow>
      (r = Inl IndexError \<or> r = Inl ValueError) \<and> runtime_attr self' = runtime_attr self)
 \<and> (eval_on_data e X y (multisvm_adapter e) Cs self w = (Inr (accs, tms), s', w'') \<longrightarrow>
      (\<forall>i<length Cs. \<exists>captured.
          output_attr (fst (snd (eval_on_data e X y (multisvm_adapter e)
                                   (take (Suc i) Cs) self w))) = Some captured
        \<and> \<not> no_runtime_field e captured
        \<and> parse_runtime e captured = Inr (tms ! i)))"
proof (intro conjI impI allI)
  assume len: "length X = length (items y)" and f: "fit e X y self w = (r, self', w')"
    and out: "output_attr self' = Some out" and bad: "no_runtime_field e out"
  from fit_outcome [OF len f] out
  have c: "case parse_runtime e out of
             Inl err \<Rightarrow> r = Inl err \<and> runtime_attr self' = runtime_attr self
           | Inr t \<Rightarrow> r = Inr () \<and> runtime_attr self' = Some t"
    by simp
  from parse_runtime_malformed [OF bad] c
  show "r = Inl IndexError \<or> r = Inl ValueError" and "runtime_attr self' = runtime_attr self"
    by auto
next
  fix i
  assume run: "eval_on_data e X y (multisvm_adapter e) Cs self w = (Inr (accs, tms), s', w'')"
    and i: "i < length Cs"
  from eval_on_data_point [OF run i] obtain s1 w1 s2 w2 where
    pre: "eval_on_data e X y (multisvm_adapter e) (take i Cs) self w
            = (Inr (take i accs, take i tms), s1, w1)"
    and point: "eval_point e X y (multisvm_adapter e) (Cs ! i) s1 w1
            = (Inr (accs ! i, tms ! i), s2, w2)"
    by blast
  from i have "take (Suc i) Cs = take i Cs @ [Cs ! i]" by (simp add: take_Suc_conv_app_nth)
  with pre point
  have "fst (snd (eval_on_data e X y (multisvm_adapter e) (take (Suc i) Cs) self w)) = s2"
    by (simp add: eval_on_data_snoc)
  moreover from multisvm_point [OF point] obtain captured where
    "output_attr s2 = Some captured" "parse_runtime e captured = Inr (tms ! i)" by blast
  ultimately
  show "\<exists>captured. output_attr (fst (snd (eval_on_data e X y (multisvm_adapter e)
                                        (take (Suc i) Cs) self w))) = Some captured
        \<and> \<not> no_runtime_field e captured
        \<and> parse_runtime e captured = Inr (tms ! i)"
    using parse_runtime_ok by auto
qed

lemma fit_world:
  assumes "length X = length (items y)"
  shows "snd (snd (fit e X y self w))
         = snd (os_popen_read e
                  (learn_command e (C self * 100 * real (length X))
                     (temp_name e ''.svm_dat'' (w\<lparr>tick := Suc (tick w)\<rparr>))
                     (temp_name e ''.svm'' w))
                  (w\<lparr>tick := Suc (Suc (tick w)),
                     files := write_file (temp_name e ''.svm_dat'' (w\<lparr>tick := Suc (tick w)\<rparr>))
                                (SvmLight X (map (\<lambda>l. real_of_int (wrap (bits y) (l + 1)))
                                               (items y)))
                                (files w)\<rparr>))"
  using assms
  by (simp add: fit_def mktemp_def dump_svmlight_file_def comp_def
           split: prod.splits sum.splits)

lemma predict_shift:
  assumes "fst (predict e X self w) = Inr p"
  shows "\<exists>a col. fst (predict_raw e X None self w) = Inr a \<and> column0 a = Inr col
           \<and> p = map (\<lambda>v. f64 e (v - 1)) col"
  using assms by (auto simp: predict_def split: prod.splits sum.splits)

lemma wrap_in_range:
  assumes "1 \<le> v" and "v < 2 ^ (n - 1)"
  shows "wrap n v = v"
proof (cases n)
  case 0
  with assms show ?thesis by simp
next
  case (Suc m)
  with assms have "0 \<le> v + 2 ^ m" and "v + 2 ^ m < 2 ^ Suc m" by simp_all
  then have "(v + 2 ^ m) mod 2 ^ Suc m = v + 2 ^ m"
    by (rule mod_pos_pos_trivial)
  with Suc show ?thesis by (simp add: wrap_def)
qed

lemma f64_integer:
  assumes "f64_exact e" and "\<bar>n\<bar> \<le> 2 ^ 53"
  shows "f64 e (real_of_int n) = real_of_int n"
  using assms by (simp add: f64_exact_def)

text \<open>
  Claim C2, amended. \<^verbatim>\<open>fit\<close> runs the learn tool on a file system in which the
  training file named on the command line holds X with the labels y + 1, computed in
  the integer type of y, where it wraps. \<^verbatim>\<open>predict\<close> returns column 0 of the
  classifier's table minus 1, rounded to float64. For labels that are not negative, lie
  below the largest value of their integer type and below \<open>2 ^ 53\<close>, the written labels
  are y + 1, shifting them back gives y, and for every class \<open>k\<close> from 1 to \<open>2 ^ 53\<close>
  the classifier may answer, the predicted label equals a caller's label \<open>l\<close> exactly
  when \<open>k\<close> is \<open>l + 1\<close>, the label written for \<open>l\<close>: no drift.
\<close>

theorem label_shift_identity:
  "(length X = length (items y) \<longrightarrow>
      (\<exists>w3. map_of (files w3) (temp_name e ''.svm_dat'' (w\<lparr>tick := Suc (tick w)\<rparr>))
               = Some (SvmLight X (map (\<lambda>l. real_of_int (wrap (bits y) (l + 1))) (items y)))
           \<and> snd (snd (fit e X y self w))
               = snd (os_popen_read e
                        (learn_command e (C self * 100 * real (length X))
                           (temp_name e ''.svm_dat'' (w\<lparr>tick := Suc (tick w)\<rparr>))
                           (temp_name e ''.svm'' w)) w3)))
 \<and> (fst (predict e X' self' w') = Inr p \<longrightarrow>
      (\<exists>a col. fst (predict_raw e X' None self' w') = Inr a \<and> column0 a = Inr col
         \<and> p = map (\<lambda>v. f64 e (v - 1)) col))
 \<and> (f64_exact e \<longrightarrow>
    (\<forall>l \<in> set (items y). 0 \<le> l \<and> l + 1 < 2 ^ (bits y - 1) \<and> l < 2 ^ 53) \<longrightarrow>
      map (\<lambda>l. real_of_int (wrap (bits y) (l + 1))) (items y)
        = map (\<lambda>l. real_of_int (l + 1)) (items y)
    \<and> map (\<lambda>v. f64 e (v - 1)) (map (\<lambda>l. real_of_int (wrap (bits y) (l + 1))) (items y))
        = map real_of_int (items y)
    \<and> (\<forall>l \<in> set (items y). \<forall>k :: int. 1 \<le> k \<and> k \<le> 2 ^ 53 \<longrightarrow>
          (f64 e (real_of_int k - 1) = real_of_int l \<longleftrightarrow> k = l + 1)))"
proof (intro conjI impI)
  assume len: "length X = length (items y)"
  show "\<exists>w3. map_of (files w3) (temp_name e ''.svm_dat'' (w\<lparr>tick := Suc (tick w)\<rparr>))
               = Some (SvmLight X (map (\<lambda>l. real_of_int (wrap (bits y) (l + 1))) (items y)))
           \<and> snd (snd (fit e X y self w))
               = snd (os_popen_read e
                        (learn_command e (C self * 100 * real (length X))
                           (temp_name e ''.svm_dat'' (w\<lparr>tick := Suc (tick w)\<rparr>))
                           (temp_name e ''.svm'' w)) w3)"
    by (rule exI [of _ "w\<lparr>tick := Suc (Suc (tick w)),
                     files := write_file (temp_name e ''.svm_dat'' (w\<lparr>tick := Suc (tick w)\<rparr>))
                                (SvmLight X (map (\<lambda>l. real_of_int (wrap (bits y) (l + 1)))
                                               (items y)))
                                (files w)\<rparr>"])
       (simp add: fit_world [OF len] write_file_def)
next
  assume "fst (predict e X' self' w') = Inr p"
  from predict_shift [OF this]
  show "\<exists>a col. fst (predict_raw e X' None self' w') = Inr a \<and> column0 a = Inr col
         \<and> p = map (\<lambda>v. f64 e (v - 1)) col" .
next
  assume exact: "f64_exact e"
    and bound: "\<forall>l \<in> set (items y). 0 \<le> l \<and> l + 1 < 2 ^ (bits y - 1) \<and> l < 2 ^ 53"
  have w: "wrap (bits y) (l + 1) = l + 1" if "l \<in> set (items y)" for l
    using bound that by (intro wrap_in_range) auto
  have b: "f64 e (real_of_int k - 1) = real_of_int (k - 1)" if "1 \<le> k" "k \<le> 2 ^ 53" for k
    using f64_integer [OF exact, of "k - 1"] that by simp
  show written: "map (\<lambda>l. real_of_int (wrap (bits y) (l + 1))) (items y)
          = map (\<lambda>l. real_of_int (l + 1)) (items y)"
    using w by simp
  have "f64 e (real_of_int (l + 1) - 1) = real_of_int l" if "l \<in> set (items y)" for l
    using b [of "l + 1"] bound that by auto
  then show "map (\<lambda>v. f64 e (v - 1))
                 (map (\<lambda>l. real_of_int (wrap (bits y) (l + 1))) (items y))
             = map real_of_int (items y)"
    unfolding written by (simp add: comp_def)
  show "\<forall>l \<in> set (items y). \<forall>k :: int. 1 \<le> k \<and> k \<le> 2 ^ 53 \<longrightarrow>
          (f64 e (real_of_int k - 1) = real_of_int l \<longleftrightarrow> k = l + 1)"
    using b by auto
qed

subsection \<open>Names of exchange files\<close>

lemma fold_max_x:
  "k \<le> fold (\<lambda>(p, c) n. max (x_count p) n) fs k
 \<and> (\<forall>(p, c) \<in> set fs. x_count p \<le> fold (\<lambda>(p, c) n. max (x_count p) n) fs k)"
proof (induction fs arbitrary: k)
  case Nil
  show ?case by simp
next
  case (Cons f fs)
  obtain p c where f: "f = (p, c)" by (cases f)
  from Cons.IH [of "max (x_count p) k"] show ?case
    by (auto simp: f)
qed

lemma most_x_bound: "p \<in> existing fs \<Longrightarrow> x_count p \<le> most_x fs"
  using fold_max_x [of 0 fs] by (auto simp: existing_def most_x_def)

lemma sample_mktemp_ok: "mktemp_ok sample_env"
proof -
  have "sample_temp_name suffix w \<notin> existing (files w)" for suffix w
  proof
    assume "sample_temp_name suffix w \<in> existing (files w)"
    from most_x_bound [OF this]
    show False by (simp add: sample_temp_name_def x_count_def)
  qed
  then show ?thesis by (simp add: mktemp_ok_def sample_env_def)
qed

lemma fit_names_eq:
  "fit_names e w = (temp_name e ''.svm'' w, temp_name e ''.svm_dat'' (w\<lparr>tick := Suc (tick w)\<rparr>))"
  by (simp add: fit_names_def mktemp_def)

lemma predict_names_eq:
  "predict_names e X w =
     (temp_name e ''.svm_dat'' w,
      temp_name e ''.out''
        (w\<lparr>tick := Suc (tick w),
           files := write_file (temp_name e ''.svm_dat'' w)
                      (SvmLight X (replicate (length X) 1)) (files w)\<rparr>))"
  by (simp add: predict_names_def mktemp_def dump_svmlight_file_def)

lemma predict_raw_spawned:
  "model_file self = Some mf \<Longrightarrow>
     spawned (snd (predict_raw e X None self w))
     = spawned w @ [classify_command (fst (predict_names e X w)) mf (snd (predict_names e X w))]"
  by (simp add: predict_raw_def predict_names_eq mktemp_def dump_svmlight_file_def
        os_system_def os_popen_read_def split: prod.splits)

text \<open>
  Claim C6. Provided \<^verbatim>\<open>tempfile.mktemp\<close> keeps its contract, the names a call of
  \<^verbatim>\<open>fit\<close> generates (model file, training-data file) and the names a call of
  \<^verbatim>\<open>_predict\<close> generates (data file, prediction file) do not exist when they are
  generated; they are the names \<^verbatim>\<open>fit\<close> stores and puts on the command line of the
  learn tool, and \<^verbatim>\<open>_predict\<close> on that of the classifier. Hence when the files of a
  call of \<^verbatim>\<open>fit\<close> are still there after it, the next call of \<^verbatim>\<open>fit\<close> generates a
  different model path and a different training-data path, and overwrites neither.
\<close>

theorem fresh_exchange_names:
  assumes "mktemp_ok e"
  shows "fst (fit_names e w) \<notin> existing (files w)
       \<and> snd (fit_names e w) \<notin> existing (files w)
       \<and> fst (predict_names e X w) \<notin> existing (files w)
       \<and> snd (predict_names e X w) \<notin> existing (files w) \<union> {fst (predict_names e X w)}
       \<and> model_file (fst (snd (fit e X y self w))) = Some (fst (fit_names e w))
       \<and> (length X = length (items y) \<longrightarrow>
            last (spawned (snd (snd (fit e X y self w))))
            = learn_command e (C self * 100 * real (length X))
                (snd (fit_names e w)) (fst (fit_names e w)))
       \<and> (model_file self = Some mf \<longrightarrow>
            last (spawned (snd (predict_raw e X None self w)))
            = classify_command (fst (predict_names e X w)) mf (snd (predict_names e X w)))
       \<and> (fst (fit_names e w) \<in> existing (files (snd (snd (fit e X y self w)))) \<longrightarrow>
          snd (fit_names e w) \<in> existing (files (snd (snd (fit e X y self w)))) \<longrightarrow>
            fst (fit_names e (snd (snd (fit e X y self w)))) \<noteq> fst (fit_names e w)
          \<and> snd (fit_names e (snd (snd (fit e X y self w)))) \<noteq> snd (fit_names e w)
          \<and> fst (fit_names e (snd (snd (fit e X y self w)))) \<noteq> snd (fit_names e w)
          \<and> snd (fit_names e (snd (snd (fit e X y self w)))) \<noteq> fst (fit_names e w))"
proof -
  from assms have fresh: "temp_name e suffix v \<notin> existing (files v)" for suffix v
    by (simp add: mktemp_ok_def)
  have gen: "fst (fit_names e v) \<notin> existing (files v) \<and> snd (fit_names e v) \<notin> existing (files v)"
    for v
    using fresh [of "''.svm''" v] fresh [of "''.svm_dat''" "v\<lparr>tick := Suc (tick v)\<rparr>"]
    by (simp add: fit_names_eq)
  have p1: "fst (predict_names e X w) \<notin> existing (files w)"
    using fresh [of "''.svm_dat''" w] by (simp add: predict_names_eq)
  have p2: "snd (predict_names e X w) \<notin> existing (files w) \<union> {fst (predict_names e X w)}"
    using fresh [of "''.out''" "w\<lparr>tick := Suc (tick w),
           files := write_file (temp_name e ''.svm_dat'' w)
                      (SvmLight X (replicate (length X) 1)) (files w)\<rparr>"]
    by (simp add: predict_names_eq existing_def write_file_def)
  have m: "model_file (fst (snd (fit e X y self w))) = Some (fst (fit_names e w))"
    by (simp add: fit_model_file fit_names_eq)
  have c1: "length X = length (items y) \<longrightarrow>
            last (spawned (snd (snd (fit e X y self w))))
            = learn_command e (C self * 100 * real (length X))
                (snd (fit_names e w)) (fst (fit_names e w))"
    by (simp add: fit_spawned fit_names_eq)
  have c2: "model_file self = Some mf \<longrightarrow>
            last (spawned (snd (predict_raw e X None self w)))
            = classify_command (fst (predict_names e X w)) mf (snd (predict_names e X w))"
    by (simp add: predict_raw_spawned)
  from gen [of w] gen [of "snd (snd (fit e X y self w))"] p1 p2 m c1 c2
  show ?thesis by (intro conjI impI) auto
qed

subsection \<open>The reporter\<close>




subsection \<open>Sample runs\<close>

lemma table_sweep:
  "fst (eval_on_data sample_env sample_X sample_y table_adapter [1, 1 / 10]
          fresh_table empty_world)
   = Inr ([Num 1, Num (2 / 3)], [Num 4, Num 2])"
  by code_simp

lemma table_sweep_first:
  "eval_on_data sample_env sample_X sample_y table_adapter (take 1 [1, 0]) fresh_table empty_world
   = (Inr ([Num 1], [Num 4]),
      \<lparr>tm_C = 1, tm_rows = [([0], 0), ([2], 1), ([1 / 2], 0)]\<rparr>,
      \<lparr>files = [], spawned = [], plt_calls = [], tick = 5\<rparr>)"
  by code_simp

lemma table_sweep_second:
  "fit_m table_adapter sample_X sample_y
     (set_C table_adapter ([1, 0] ! 1)
        \<lparr>tm_C = 1, tm_rows = [([0], 0), ([2], 1), ([1 / 2], 0)]\<rparr>)
     (snd (clock sample_env \<lparr>files = [], spawned = [], plt_calls = [], tick = 5\<rparr>))
   = (Inl ValueError,
      \<lparr>tm_C = 0, tm_rows = [([0], 0), ([2], 1), ([1 / 2], 0)]\<rparr>,
      \<lparr>files = [], spawned = [], plt_calls = [], tick = 6\<rparr>)"
  by code_simp

lemma short_fit:
  "fit_m table_adapter sample_X short_y (set_C table_adapter ([1] ! 0) fresh_table)
     (snd (clock sample_env empty_world))
   = (Inr (), \<lparr>tm_C = 1, tm_rows = [([0], 0), ([2], 1)]\<rparr>,
      \<lparr>files = [], spawned = [], plt_calls = [], tick = 3\<rparr>)"
  by code_simp

lemma short_predict:
  "predict_m table_adapter sample_X \<lparr>tm_C = 1, tm_rows = [([0], 0), ([2], 1)]\<rparr>
     (snd (time_of_point sample_env table_adapter (clock_val sample_env empty_world)
             \<lparr>tm_C = 1, tm_rows = [([0], 0), ([2], 1)]\<rparr>
             \<lparr>files = [], spawned = [], plt_calls = [], tick = 3\<rparr>))
   = (Inr [0, 1, 0], \<lparr>tm_C = 1, tm_rows = [([0], 0), ([2], 1)]\<rparr>,
      \<lparr>files = [], spawned = [], plt_calls = [], tick = 4\<rparr>)"
  by code_simp

lemma short_accuracy: "accuracy_score sample_env short_y [0, 1, 0] = Inl ValueError"
  by code_simp

lemma idle_fit:
  "fit_m (multisvm_adapter idle_env) sample_X sample_y
     (set_C (multisvm_adapter idle_env) ([1] ! 0) (init_MultiSVM 7))
     (snd (clock idle_env empty_world))
   = (Inr (), fitted_svm,
      \<lparr>files = [(''/tmp/tmpx.svm_dat'', SvmLight [[0], [2], [1 / 2]] [1, 2, 1])],
       spawned = [svmstruct_path
                 @ ''svm_multiclass_learn -w 3 -c 300.000000 /tmp/tmpx.svm_dat /tmp/tmpx.svm''],
       plt_calls = [], tick = 4\<rparr>)"
  by code_simp

lemma idle_predict:
  "fst (predict_m (multisvm_adapter idle_env) sample_X fitted_svm
          (snd (time_of_point idle_env (multisvm_adapter idle_env)
                  (clock_val idle_env empty_world) fitted_svm
                  \<lparr>files = [(''/tmp/tmpx.svm_dat'', SvmLight [[0], [2], [1 / 2]] [1, 2, 1])],
                   spawned = [svmstruct_path
                     @ ''svm_multiclass_learn -w 3 -c 300.000000 /tmp/tmpx.svm_dat /tmp/tmpx.svm''],
                   plt_calls = [], tick = 4\<rparr>)))
   = Inl IOError"
  by code_simp

lemma multisvm_sweep:
  "fst (eval_on_data sample_env sample_X sample_y (multisvm_adapter sample_env) [1]
          (init_MultiSVM 7) empty_world)
   = Inr ([Num 1], [Num (1 / 20)])"
  by code_simp

text \<open>
  On the in-process model the sweep of 1 and 1/10 returns the accuracies 1 and 2/3 and the
  times 4 and 2, each from its own cycle. The sweep of 1 and 0 raises at the second
  value, where \<^verbatim>\<open>fit\<close> rejects C; the sweep with two labels for three samples raises
  in \<^verbatim>\<open>accuracy_score\<close>; with tools that write no file, \<^verbatim>\<open>predict\<close> raises. No sweep
  of these returns a list.
\<close>

theorem eval_on_data_aligned_witness:
  "(\<exists>s' w'. eval_on_data sample_env sample_X sample_y table_adapter [1, 1 / 10]
               fresh_table empty_world
             = (Inr ([Num 1, Num (2 / 3)], [Num 4, Num 2]), s', w'))
 \<and> length [Num 1, Num (2 / 3)] = length [1, 1 / 10 :: real]
 \<and> length [Num 4, Num 2] = length [1, 1 / 10 :: real]
 \<and> (\<exists>s1 w1 s2 w2 w3 y_pred s3 w4.
       eval_on_data sample_env sample_X sample_y table_adapter (take 1 [1, 1 / 10])
         fresh_table empty_world
         = (Inr (take 1 [Num 1, Num (2 / 3)], take 1 [Num 4, Num 2]), s1, w1)
     \<and> fit_m table_adapter sample_X sample_y (set_C table_adapter ([1, 1 / 10] ! 1) s1)
         (snd (clock sample_env w1)) = (Inr (), s2, w2)
     \<and> time_of_point sample_env table_adapter (clock_val sample_env w1) s2 w2
         = ([Num 4, Num 2] ! 1, w3)
     \<and> predict_m table_adapter sample_X s2 w3 = (Inr y_pred, s3, w4)
     \<and> accuracy_score sample_env sample_y y_pred = Inr ([Num 1, Num (2 / 3)] ! 1)
     \<and> eval_on_data sample_env sample_X sample_y table_adapter (take (Suc 1) [1, 1 / 10])
         fresh_table empty_world
         = (Inr (take (Suc 1) [Num 1, Num (2 / 3)], take (Suc 1) [Num 4, Num 2]), s3, w4))
 \<and> (1 :: nat) < length [1, 0 :: real]
 \<and> fst (eval_on_data sample_env sample_X sample_y table_adapter [1, 0] fresh_table empty_world)
     = Inl ValueError
 \<and> fst (eval_on_data sample_env sample_X short_y table_adapter [1] fresh_table empty_world)
     = Inl ValueError
 \<and> fst (eval_on_data idle_env sample_X sample_y (multisvm_adapter idle_env) [1]
          (init_MultiSVM 7) empty_world)
     = Inl IOError"
proof -
  obtain s' w' where
    run: "eval_on_data sample_env sample_X sample_y table_adapter [1, 1 / 10]
            fresh_table empty_world = (Inr ([Num 1, Num (2 / 3)], [Num 4, Num 2]), s', w')"
    using table_sweep
    by (cases "eval_on_data sample_env sample_X sample_y table_adapter
                 [1, 1 / 10] fresh_table empty_world") auto
  note ok = eval_on_data_aligned [where e = sample_env and X = sample_X and y = sample_y
      and svm = table_adapter and Cs = "[1, 1 / 10]" and s = fresh_table and w = empty_world
      and accs = "[Num 1, Num (2 / 3)]" and tms = "[Num 4, Num 2]" and s' = s' and w' = w',
      THEN conjunct1, rule_format, OF run]
  have one: "1 < length [1, 1 / 10 :: real]" by simp
  note point = ok [THEN conjunct2, THEN conjunct2, rule_format, OF one]
  have first: "eval_on_data sample_env sample_X sample_y table_adapter [1, 0]
                 fresh_table empty_world
        = (Inl ValueError,
           \<lparr>tm_C = 0, tm_rows = [([0], 0), ([2], 1), ([1 / 2], 0)]\<rparr>,
           \<lparr>files = [], spawned = [], plt_calls = [], tick = 6\<rparr>)"
    using eval_on_data_aligned [where e = sample_env and X = sample_X and y = sample_y
        and svm = table_adapter and Cs = "[1, 0]" and s = fresh_table and w = empty_world
        and i = 1, THEN conjunct2, rule_format, OF _ table_sweep_first,
        THEN conjunct1, rule_format, OF _ table_sweep_second]
    by simp
  have start: "eval_on_data e X y svm (take 0 [1]) s w = (Inr ([], []), s, w)" for e X y s w
    and svm :: "'s adapter"
    by (simp add: eval_on_data_def)
  have zero: "0 < length [1 :: real]" by simp
  have second: "eval_on_data sample_env sample_X short_y table_adapter [1] fresh_table empty_world
        = (Inl ValueError, \<lparr>tm_C = 1, tm_rows = [([0], 0), ([2], 1)]\<rparr>,
           \<lparr>files = [], spawned = [], plt_calls = [], tick = 4\<rparr>)"
    by (rule eval_on_data_aligned [where Cs = "[1]" and i = 0, THEN conjunct2, rule_format,
          OF zero start, THEN conjunct2, THEN conjunct2, rule_format,
          OF short_fit short_predict short_accuracy])
  obtain s3 w4 where
    idle: "predict_m (multisvm_adapter idle_env) sample_X fitted_svm
          (snd (time_of_point idle_env (multisvm_adapter idle_env)
                  (clock_val idle_env empty_world) fitted_svm
                  \<lparr>files = [(''/tmp/tmpx.svm_dat'', SvmLight [[0], [2], [1 / 2]] [1, 2, 1])],
                   spawned = [svmstruct_path
                     @ ''svm_multiclass_learn -w 3 -c 300.000000 /tmp/tmpx.svm_dat /tmp/tmpx.svm''],
                   plt_calls = [], tick = 4\<rparr>))
       = (Inl IOError, s3, w4)"
    using idle_predict
    by (cases "predict_m (multisvm_adapter idle_env) sample_X fitted_svm
          (snd (time_of_point idle_env (multisvm_adapter idle_env)
                  (clock_val idle_env empty_world) fitted_svm
                  \<lparr>files = [(''/tmp/tmpx.svm_dat'', SvmLight [[0], [2], [1 / 2]] [1, 2, 1])],
                   spawned = [svmstruct_path
                     @ ''svm_multiclass_learn -w 3 -c 300.000000 /tmp/tmpx.svm_dat /tmp/tmpx.svm''],
                   plt_calls = [], tick = 4\<rparr>))") auto
  have third: "eval_on_data idle_env sample_X sample_y (multisvm_adapter idle_env) [1]
                 (init_MultiSVM 7) empty_world = (Inl IOError, s3, w4)"
    by (rule eval_on_data_aligned [where Cs = "[1]" and i = 0, THEN conjunct2, rule_format,
          OF zero start, THEN conjunct2, THEN conjunct1, rule_format, OF idle_fit idle])
  have lens: "length [Num 1, Num (2 / 3)] = length [1, 1 / 10 :: real]"
    "length [Num 4, Num 2] = length [1, 1 / 10 :: real]"
    by simp_all
  have "1 < length [1, 0 :: real]" by simp
  moreover from run have "\<exists>s' w'. eval_on_data sample_env sample_X sample_y table_adapter
               [1, 1 / 10] fresh_table empty_world
             = (Inr ([Num 1, Num (2 / 3)], [Num 4, Num 2]), s', w')"
    by blast
  ultimately show ?thesis
    using lens point first second third by (intro conjI) simp_all
qed


text \<open>The in-process model has no \<^verbatim>\<open>runtime_\<close>: its time is the elapsed clock.\<close>

theorem eval_on_data_time_source_witness:
  "(\<exists>s' w'. eval_on_data sample_env sample_X sample_y table_adapter [1, 1 / 10]
               fresh_table empty_world
             = (Inr ([Num 1, Num (2 / 3)], [Num 4, Num 2]), s', w'))
 \<and> (1 :: nat) < length [1, 1 / 10 :: real]
 \<and> (\<exists>s1 w1 s2 w2.
        snd (eval_on_data sample_env sample_X sample_y table_adapter (take 1 [1, 1 / 10])
               fresh_table empty_world) = (s1, w1)
      \<and> fit_m table_adapter sample_X sample_y (set_C table_adapter ([1, 1 / 10] ! 1) s1)
          (snd (clock sample_env w1)) = (Inr (), s2, w2)
      \<and> [Num 4, Num 2] ! 1
          = (case runtime_of table_adapter s2 of
               Some rt \<Rightarrow> rt
             | None \<Rightarrow> Num (clock_val sample_env w2 - clock_val sample_env w1)))"
proof -
  obtain s' w' where
    run: "eval_on_data sample_env sample_X sample_y table_adapter [1, 1 / 10]
            fresh_table empty_world = (Inr ([Num 1, Num (2 / 3)], [Num 4, Num 2]), s', w')"
    using table_sweep
    by (cases "eval_on_data sample_env sample_X sample_y table_adapter
                 [1, 1 / 10] fresh_table empty_world") auto
  have i: "(1 :: nat) < length [1, 1 / 10 :: real]" by simp
  from eval_on_data_time_source [OF run i] run i show ?thesis by blast
qed

lemma table_keeps_C: "keeps_C table_adapter"
  by (simp add: keeps_C_def table_adapter_def table_fit_def)

text \<open>
  The in-process model starts with C = 1 and ends the sweep with C = 1/10; a
  \<^verbatim>\<open>MultiSVM(C=7.)\<close> ends the sweep of the single value 1 with C = 1.
\<close>

theorem eval_on_data_sets_C_witness:
  "keeps_C table_adapter \<and> [1, 1 / 10 :: real] \<noteq> []
 \<and> (\<exists>r s' w'. eval_on_data sample_env sample_X sample_y table_adapter [1, 1 / 10]
               fresh_table empty_world = (Inr r, s', w')
       \<and> get_C table_adapter s' = last [1, 1 / 10]
       \<and> get_C table_adapter s' \<noteq> get_C table_adapter fresh_table)
 \<and> keeps_C (multisvm_adapter sample_env) \<and> [1 :: real] \<noteq> []
 \<and> (\<exists>r s' w'. eval_on_data sample_env sample_X sample_y (multisvm_adapter sample_env) [1]
               (init_MultiSVM 7) empty_world = (Inr r, s', w')
       \<and> C s' = last [1] \<and> C (init_MultiSVM 7) = 7)"
proof -
  obtain s' w' where
    run: "eval_on_data sample_env sample_X sample_y table_adapter [1, 1 / 10]
            fresh_table empty_world = (Inr ([Num 1, Num (2 / 3)], [Num 4, Num 2]), s', w')"
    using table_sweep
    by (cases "eval_on_data sample_env sample_X sample_y table_adapter
                 [1, 1 / 10] fresh_table empty_world") auto
  have ne: "[1, 1 / 10 :: real] \<noteq> []" by simp
  from eval_on_data_sets_C [OF table_keeps_C ne run]
  have last: "get_C table_adapter s' = last [1, 1 / 10]" by (rule conjunct1)
  then have changed: "get_C table_adapter s' \<noteq> get_C table_adapter fresh_table"
    by (simp add: table_adapter_def fresh_table_def)
  from run last changed
  have table: "\<exists>r s' w'. eval_on_data sample_env sample_X sample_y table_adapter [1, 1 / 10]
               fresh_table empty_world = (Inr r, s', w')
       \<and> get_C table_adapter s' = last [1, 1 / 10]
       \<and> get_C table_adapter s' \<noteq> get_C table_adapter fresh_table"
    by (intro exI conjI)
  obtain s'' w'' where
    run': "eval_on_data sample_env sample_X sample_y (multisvm_adapter sample_env) [1]
            (init_MultiSVM 7) empty_world = (Inr ([Num 1], [Num (1 / 20)]), s'', w'')"
    using multisvm_sweep
    by (cases "eval_on_data sample_env sample_X sample_y (multisvm_adapter sample_env) [1]
                 (init_MultiSVM 7) empty_world") auto
  have ne': "[1 :: real] \<noteq> []" by simp
  from eval_on_data_sets_C [OF multisvm_keeps_C ne' run']
  have "get_C (multisvm_adapter sample_env) s'' = last [1]" by (rule conjunct1)
  then have last': "C s'' = last [1]" by (simp add: multisvm_adapter_def)
  have "C (init_MultiSVM 7) = 7" by (simp add: init_MultiSVM_def)
  with run' last'
  have svm: "\<exists>r s' w'. eval_on_data sample_env sample_X sample_y (multisvm_adapter sample_env) [1]
               (init_MultiSVM 7) empty_world = (Inr r, s', w')
       \<and> C s' = last [1] \<and> C (init_MultiSVM 7) = 7"
    by (intro exI conjI)
  from table_keeps_C ne table multisvm_keeps_C ne' svm show ?thesis
    by (intro conjI)
qed

lemma sample_fit:
  "fit sample_env sample_X sample_y (init_MultiSVM 1) empty_world
   = (Inr (), fitted_svm, fitted_world)"
  by code_simp

lemma quiet_fit:
  "fit quiet_env sample_X sample_y (init_MultiSVM 1) empty_world
   = (Inl IndexError, quiet_svm, fitted_world)"
  by code_simp

lemma truncated_fit:
  "fit truncated_env sample_X sample_y (init_MultiSVM 1) empty_world
   = (Inr (), truncated_svm, fitted_world)"
  by code_simp

lemma narrow_fit:
  "fit sample_env sample_X narrow_y (init_MultiSVM 1) empty_world
   = (Inr (), fitted_svm, narrow_world)"
  by code_simp

lemma sample_fit_labels:
  "fit sample_env sample_X (Int_array n [a, b, c]) (init_MultiSVM 1) empty_world
   = (Inr (), fitted_svm,
      world_after_fit [real_of_int (wrap n (a + 1)), real_of_int (wrap n (b + 1)),
                       real_of_int (wrap n (c + 1))])"
  by (simp add: fit_def mktemp_def sample_env_def sample_temp_name_def most_x_def x_count_def
        empty_world_def dump_svmlight_file_def sample_X_def os_popen_read_def tool_shell_def
        learn_command_def svmstruct_path_def sample_format_def init_MultiSVM_def write_file_def
        sample_banner_def parse_runtime_def py_index_def sample_float_def fitted_svm_def
        world_after_fit_def Let_def)

lemma large_fit:
  "fit sample_env sample_X large_y (init_MultiSVM 1) empty_world
   = (Inr (), fitted_svm, large_world)"
  by (simp add: large_y_def large_world_def sample_fit_labels wrap_def)

lemma sample_predict:
  "fst (predict sample_env sample_X fitted_svm fitted_world) = Inr [0, 1, 0]"
  by code_simp

lemma quiet_predict:
  "fst (predict quiet_env sample_X quiet_svm fitted_world) = Inr [0, 1, 0]"
  by code_simp

lemma narrow_predict:
  "fst (predict sample_env sample_X fitted_svm narrow_world) = Inr [0, - 129, 0]"
  by code_simp

lemma large_predict:
  "fst (predict sample_env sample_X fitted_svm large_world) = Inr [0, 2 ^ 53, 0]"
  by code_simp

lemma truncated_sweep:
  "fst (eval_on_data truncated_env sample_X sample_y (multisvm_adapter truncated_env) [1]
          (init_MultiSVM 7) empty_world)
   = Inr ([Num 1], [Num 0])"
  by code_simp

text \<open>The command line of the sample run.\<close>

theorem fit_spawns_learn_once_witness:
  "length sample_X = length (items sample_y)
 \<and> spawned (snd (snd (fit sample_env sample_X sample_y (init_MultiSVM 1) empty_world)))
     = [''/home/user/amueller/tools/svm_multiclass/svm_multiclass_learn -w 3 -c 300.000000 /tmp/tmpx.svm_dat /tmp/tmpx.svm'']
 \<and> model_file (fst (snd (fit sample_env sample_X sample_y (init_MultiSVM 1) empty_world)))
     = Some ''/tmp/tmpx.svm''"
proof -
  have len: "length sample_X = length (items sample_y)" by code_simp
  have cmd: "spawned empty_world
           @ [svmstruct_path @ ''svm_multiclass_learn -w 3 -c ''
              @ format_f sample_env (C (init_MultiSVM 1) * 100 * real (length sample_X))
              @ '' '' @ temp_name sample_env ''.svm_dat'' (empty_world\<lparr>tick := Suc (tick empty_world)\<rparr>)
              @ '' '' @ temp_name sample_env ''.svm'' empty_world]
     = [''/home/user/amueller/tools/svm_multiclass/svm_multiclass_learn -w 3 -c 300.000000 /tmp/tmpx.svm_dat /tmp/tmpx.svm'']"
    by code_simp
  have mf: "temp_name sample_env ''.svm'' empty_world = ''/tmp/tmpx.svm''"
    by code_simp
  note run = fit_spawns_learn_once [OF len, of sample_env "init_MultiSVM 1" empty_world]
  show ?thesis
  proof (intro conjI)
    show "length sample_X = length (items sample_y)" by (rule len)
    show "spawned (snd (snd (fit sample_env sample_X sample_y (init_MultiSVM 1) empty_world)))
          = [''/home/user/amueller/tools/svm_multiclass/svm_multiclass_learn -w 3 -c 300.000000 /tmp/tmpx.svm_dat /tmp/tmpx.svm'']"
      using run [THEN conjunct1] cmd by (rule trans)
    show "model_file (fst (snd (fit sample_env sample_X sample_y (init_MultiSVM 1) empty_world)))
          = Some ''/tmp/tmpx.svm''"
      using run [THEN conjunct2] mf by simp
  qed
qed

text \<open>
  Claim C7 as stated fails: with the labels -1, 7 and 0 on three samples, a negative
  label and one beyond any dense range of three samples, \<^verbatim>\<open>fit\<close> returns normally
  and has started the learn tool.
\<close>

theorem fit_unchecked_labels:
  "fst (fit sample_env sample_X (Int_array 64 [- 1, 7, 0]) (init_MultiSVM 1) empty_world)
     = Inr ()
 \<and> spawned (snd (snd (fit sample_env sample_X (Int_array 64 [- 1, 7, 0]) (init_MultiSVM 1)
                         empty_world)))
     = [''/home/user/amueller/tools/svm_multiclass/svm_multiclass_learn -w 3 -c 300.000000 /tmp/tmpx.svm_dat /tmp/tmpx.svm'']"
  by code_simp

text \<open>Three samples with two labels are rejected before anything is started or written.\<close>

theorem fit_checks_rows_only_witness:
  "length sample_X \<noteq> length (items short_y)
 \<and> fst (fit sample_env sample_X short_y (init_MultiSVM 1) empty_world) = Inl ValueError
 \<and> spawned (snd (snd (fit sample_env sample_X short_y (init_MultiSVM 1) empty_world))) = []
 \<and> files (snd (snd (fit sample_env sample_X short_y (init_MultiSVM 1) empty_world))) = []"
proof -
  have ne: "length sample_X \<noteq> length (items short_y)"
    by (simp add: sample_X_def short_y_def)
  from fit_checks_rows_only [OF ne, of sample_env "init_MultiSVM 1" empty_world] ne
  show ?thesis by (simp add: empty_world_def)
qed

text \<open>
  Claim C9 as stated fails: when the tools print nothing, \<^verbatim>\<open>fit\<close> raises IndexError at
  the runtime line, so no call of \<^verbatim>\<open>fit\<close> has succeeded; the attribute
  \<^verbatim>\<open>model_file\<close> is set all the same, the model is on disk, and \<^verbatim>\<open>predict\<close> returns
  labels.
\<close>

theorem predict_after_failed_fit:
  "fit quiet_env sample_X sample_y (init_MultiSVM 1) empty_world
     = (Inl IndexError, quiet_svm, fitted_world)
 \<and> fst (predict quiet_env sample_X quiet_svm fitted_world) = Inr [0, 1, 0]"
  using quiet_fit quiet_predict by simp

text \<open>A new object in the empty world.\<close>

theorem predict_needs_model_file_witness:
  "model_file (init_MultiSVM 1) = None
 \<and> fst (predict sample_env sample_X (init_MultiSVM 1) empty_world) = Inl AttributeError
 \<and> fst (score sample_env sample_X sample_y (init_MultiSVM 1) empty_world) = Inl AttributeError
 \<and> fst (decision_function sample_env sample_X (init_MultiSVM 1) empty_world)
     = Inl AttributeError"
  using predict_needs_model_file
          [of "init_MultiSVM 1" sample_env sample_X empty_world sample_y 1]
  by simp


text \<open>
  Claim C1 as stated fails: when the banner has no runtime line, the fourth line from
  its end is another line of the form label, colon, number. \<^verbatim>\<open>fit\<close> raises nothing
  and records that number, here 0.0, as the runtime, and the sweep returns it as its
  time.
\<close>

theorem fit_records_other_line:
  "fit truncated_env sample_X sample_y (init_MultiSVM 1) empty_world
     = (Inr (), truncated_svm, fitted_world)
 \<and> output_attr truncated_svm
     = Some [''Upper bound on duality gap: 0.0'', ''Compacting linear model...done'',
             ''Writing learned model...done'', []]
 \<and> runtime_attr truncated_svm = Some (Num 0)
 \<and> fst (eval_on_data truncated_env sample_X sample_y (multisvm_adapter truncated_env) [1]
          (init_MultiSVM 7) empty_world)
     = Inr ([Num 1], [Num 0])"
  using truncated_fit truncated_sweep by (simp add: truncated_svm_def)

text \<open>
  The quiet tools print nothing: \<^verbatim>\<open>fit\<close> raises IndexError and records no runtime.
  The sample tools report 0.05 seconds, which the sweep returns.
\<close>

lemma quiet_no_runtime: "no_runtime_field quiet_env [[]]"
  by (simp add: no_runtime_field_def)

theorem fit_malformed_output_witness:
  "length sample_X = length (items sample_y)
 \<and> fit quiet_env sample_X sample_y (init_MultiSVM 1) empty_world
     = (Inl IndexError, quiet_svm, fitted_world)
 \<and> output_attr quiet_svm = Some [[]]
 \<and> no_runtime_field quiet_env [[]]
 \<and> runtime_attr quiet_svm = runtime_attr (init_MultiSVM 1)
 \<and> (\<exists>s' w'. eval_on_data sample_env sample_X sample_y (multisvm_adapter sample_env) [1]
                 (init_MultiSVM 7) empty_world = (Inr ([Num 1], [Num (1 / 20)]), s', w'))
 \<and> (\<exists>captured.
        output_attr (fst (snd (eval_on_data sample_env sample_X sample_y
                                 (multisvm_adapter sample_env) (take (Suc 0) [1])
                                 (init_MultiSVM 7) empty_world))) = Some captured
      \<and> \<not> no_runtime_field sample_env captured
      \<and> parse_runtime sample_env captured = Inr ([Num (1 / 20)] ! 0))"
proof -
  have len: "length sample_X = length (items sample_y)" by code_simp
  have out: "output_attr quiet_svm = Some [[]]" by (simp add: quiet_svm_def)
  obtain s' w' where
    run: "eval_on_data sample_env sample_X sample_y (multisvm_adapter sample_env) [1]
            (init_MultiSVM 7) empty_world = (Inr ([Num 1], [Num (1 / 20)]), s', w')"
    using multisvm_sweep
    by (cases "eval_on_data sample_env sample_X sample_y (multisvm_adapter sample_env) [1]
                 (init_MultiSVM 7) empty_world") auto
  note quiet = fit_malformed_output [of sample_X sample_y quiet_env "init_MultiSVM 1"
      empty_world "Inl IndexError" quiet_svm fitted_world "[[]]"]
  note sweep = fit_malformed_output [of _ _ sample_env "init_MultiSVM 7" empty_world _ _ _ _
      "[1]" "[Num 1]" "[Num (1 / 20)]" s' w']
  from quiet [THEN conjunct1, rule_format, OF len quiet_fit out quiet_no_runtime]
  have kept: "runtime_attr quiet_svm = runtime_attr (init_MultiSVM 1)"
    by (rule conjunct2)
  have i: "0 < length [1 :: real]" by simp
  from sweep [THEN conjunct2, rule_format, OF run i]
  have parsed: "\<exists>captured.
        output_attr (fst (snd (eval_on_data sample_env sample_X sample_y
                                 (multisvm_adapter sample_env) (take (Suc 0) [1])
                                 (init_MultiSVM 7) empty_world))) = Some captured
      \<and> \<not> no_runtime_field sample_env captured
      \<and> parse_runtime sample_env captured = Inr ([Num (1 / 20)] ! 0)" .
  from run have "\<exists>s' w'. eval_on_data sample_env sample_X sample_y (multisvm_adapter sample_env) [1]
                 (init_MultiSVM 7) empty_world = (Inr ([Num 1], [Num (1 / 20)]), s', w')"
    by blast
  with len quiet_fit out quiet_no_runtime kept parsed show ?thesis
    by (intro conjI)
qed

text \<open>
  Claim C2 as stated fails at the ends of the number types. With 128 classes in 8-bit
  integers, the label written for class 127 is -128, and the label predicted for that
  sample is -129. With 64-bit integers, the label written for \<open>2 ^ 53 + 1\<close> is
  \<open>2 ^ 53 + 2\<close>; the classifier answers it, and the label predicted is \<open>2 ^ 53\<close>.
\<close>

theorem label_shift_drift:
  "fit sample_env sample_X narrow_y (init_MultiSVM 1) empty_world
     = (Inr (), fitted_svm, narrow_world)
 \<and> map_of (files narrow_world) ''/tmp/tmpx.svm_dat''
     = Some (SvmLight sample_X [1, - 128, 1])
 \<and> fst (predict sample_env sample_X fitted_svm narrow_world) = Inr [0, - 129, 0]
 \<and> items narrow_y = [0, 127, 0]
 \<and> fit sample_env sample_X large_y (init_MultiSVM 1) empty_world
     = (Inr (), fitted_svm, large_world)
 \<and> map_of (files large_world) ''/tmp/tmpx.svm_dat''
     = Some (SvmLight sample_X [1, 2 ^ 53 + 2, 1])
 \<and> fst (predict sample_env sample_X fitted_svm large_world) = Inr [0, 2 ^ 53, 0]
 \<and> items large_y = [0, 2 ^ 53 + 1, 0]"
  using narrow_fit narrow_predict large_fit large_predict
  by (simp add: narrow_world_def large_world_def world_after_fit_def sample_X_def
        narrow_y_def large_y_def)

text \<open>
  On the sample labels 0, 1, 0 the labels written are 1, 2, 1, the classifier answers
  them, and \<^verbatim>\<open>predict\<close> returns 0, 1, 0.
\<close>

lemma sample_f64_exact: "f64_exact sample_env"
  unfolding f64_exact_def sample_env_def
proof (intro allI impI)
  fix n :: int
  assume "\<bar>n\<bar> \<le> 2 ^ 53"
  then have "n \<noteq> 2 ^ 53 + 1" by simp
  then have "real_of_int n \<noteq> real_of_int (2 ^ 53 + 1)"
    by (simp only: of_int_eq_iff not_False_eq_True)
  then show "f64 \<lparr>temp_name = sample_temp_name, shell = tool_shell sample_banner,
                   clock_val = (\<lambda>w. real (tick w)), py_float = sample_float,
                   format_f = sample_format, accuracy_score = sample_accuracy,
                   f64 = sample_f64, can_write = sample_can_write\<rparr> (real_of_int n)
             = real_of_int n"
    by (simp add: sample_f64_def)
qed

theorem label_shift_identity_witness:
  "length sample_X = length (items sample_y)
 \<and> fst (predict sample_env sample_X fitted_svm fitted_world) = Inr [0, 1, 0]
 \<and> items sample_y = [0, 1, 0] \<and> bits sample_y = 64
 \<and> map (\<lambda>l. real_of_int (wrap (bits sample_y) (l + 1))) (items sample_y) = [1, 2, 1]
 \<and> map (\<lambda>v. f64 sample_env (v - 1)) [1, 2, 1] = map real_of_int (items sample_y)
 \<and> (\<exists>a col. fst (predict_raw sample_env sample_X None fitted_svm fitted_world) = Inr a
       \<and> column0 a = Inr col \<and> [0, 1, 0] = map (\<lambda>v. f64 sample_env (v - 1)) col)
 \<and> (\<exists>w3. map_of (files w3)
              (temp_name sample_env ''.svm_dat'' (empty_world\<lparr>tick := Suc (tick empty_world)\<rparr>))
            = Some (SvmLight sample_X
                      (map (\<lambda>l. real_of_int (wrap (bits sample_y) (l + 1))) (items sample_y)))
         \<and> snd (snd (fit sample_env sample_X sample_y (init_MultiSVM 1) empty_world))
            = snd (os_popen_read sample_env
                     (learn_command sample_env
                        (C (init_MultiSVM 1) * 100 * real (length sample_X))
                        (temp_name sample_env ''.svm_dat''
                           (empty_world\<lparr>tick := Suc (tick empty_world)\<rparr>))
                        (temp_name sample_env ''.svm'' empty_world)) w3))"
proof -
  have len: "length sample_X = length (items sample_y)" by code_simp
  have bound: "\<forall>l \<in> set (items sample_y).
                 0 \<le> l \<and> l + 1 < 2 ^ (bits sample_y - 1) \<and> l < 2 ^ 53"
    by (simp add: sample_y_def)
  note inst = label_shift_identity [where X = sample_X and y = sample_y and e = sample_env
      and w = empty_world and self = "init_MultiSVM 1" and X' = sample_X
      and self' = fitted_svm and w' = fitted_world and p = "[0, 1, 0]"]
  note written = inst [THEN conjunct1, rule_format, OF len]
  note shifted = inst [THEN conjunct2, THEN conjunct1, rule_format, OF sample_predict]
  note ident = inst [THEN conjunct2, THEN conjunct2, rule_format, OF sample_f64_exact bound [rule_format]]
  have y1: "map (\<lambda>l. real_of_int (l + 1)) (items sample_y) = [1, 2, 1]"
    by (simp add: sample_y_def)
  from ident [THEN conjunct1] y1
  have labels: "map (\<lambda>l. real_of_int (wrap (bits sample_y) (l + 1))) (items sample_y)
                = [1, 2, 1]"
    by (rule trans)
  from ident [THEN conjunct2, THEN conjunct1]
  have round: "map (\<lambda>v. f64 sample_env (v - 1)) [1, 2, 1] = map real_of_int (items sample_y)"
    unfolding labels .
  have "items sample_y = [0, 1, 0]" and "bits sample_y = 64"
    by (simp_all add: sample_y_def)
  with len sample_predict labels round shifted written
  show ?thesis by (intro conjI)
qed

text \<open>Two calls of \<^verbatim>\<open>fit\<close> in a row in the sample environment.\<close>

lemma sample_names:
  "fit_names sample_env empty_world = (''/tmp/tmpx.svm'', ''/tmp/tmpx.svm_dat'')"
  "fit_names sample_env fitted_world = (''/tmp/tmpxx.svm'', ''/tmp/tmpxx.svm_dat'')"
  "existing (files fitted_world) = {''/tmp/tmpx.svm'', ''/tmp/tmpx.svm_dat''}"
  by (code_simp, code_simp, simp add: existing_def fitted_world_def world_after_fit_def)

theorem fresh_exchange_names_witness:
  "mktemp_ok sample_env
 \<and> fst (fit_names sample_env empty_world)
     \<in> existing (files (snd (snd (fit sample_env sample_X sample_y (init_MultiSVM 1)
                                     empty_world))))
 \<and> snd (fit_names sample_env empty_world)
     \<in> existing (files (snd (snd (fit sample_env sample_X sample_y (init_MultiSVM 1)
                                     empty_world))))
 \<and> fst (fit_names sample_env fitted_world) \<noteq> fst (fit_names sample_env empty_world)
 \<and> snd (fit_names sample_env fitted_world) \<noteq> snd (fit_names sample_env empty_world)
 \<and> fit_names sample_env empty_world = (''/tmp/tmpx.svm'', ''/tmp/tmpx.svm_dat'')
 \<and> fit_names sample_env fitted_world = (''/tmp/tmpxx.svm'', ''/tmp/tmpxx.svm_dat'')"
proof -
  have w1: "snd (snd (fit sample_env sample_X sample_y (init_MultiSVM 1) empty_world))
            = fitted_world"
    by (simp add: sample_fit)
  have m: "fst (fit_names sample_env empty_world) \<in> existing (files fitted_world)"
    and t: "snd (fit_names sample_env empty_world) \<in> existing (files fitted_world)"
    by (simp_all add: sample_names)
  note inst = fresh_exchange_names [OF sample_mktemp_ok, of empty_world sample_X sample_y
      "init_MultiSVM 1" "[]", unfolded w1]
  from inst m t
  have "fst (fit_names sample_env fitted_world) \<noteq> fst (fit_names sample_env empty_world)"
    and "snd (fit_names sample_env fitted_world) \<noteq> snd (fit_names sample_env empty_world)"
    by simp_all
  with sample_mktemp_ok m t sample_names(1,2) show ?thesis
    unfolding w1 by (intro conjI)
qed



end
